theory Spec2Isabelle
  imports Main
begin

section \<open>Requisite satisfaction evaluator (scrapers/units/requisite_checker.go)\<close>

text \<open>
  A field \<open>F\<close> of the Go struct \<open>S\<close> is the selector \<open>S_F\<close>. A Go \<open>error\<close> is
  modelled by its message; a function returning \<open>(bool, []string, error)\<close> returns the
  triple, with \<open>None\<close> for the \<open>nil\<close> error. A \<open>nil\<close> slice and an empty slice are both
  the empty list.
\<close>

type_synonym error = string

record Unit =
  Unit_Code :: string
  Unit_Name :: string
  Unit_CreditPoints :: int
  Unit_Description :: string
  Unit_URL :: string

record CompressedUnit =
  CompressedUnit_UnitCode :: string
  CompressedUnit_UnitNumber :: string

datatype CompressedContainer =
  CompressedContainer
    (CompressedContainer_Relationship: string)
    (CompressedContainer_Units: "CompressedUnit list")
    (CompressedContainer_Containers: "CompressedContainer list")

record CompressedRequisite =
  CompressedRequisite_RequisiteType :: string
  CompressedRequisite_Containers :: "CompressedContainer list"

text \<open>Of \<open>UnitData\<close> the evaluator reads the field \<open>Requisites\<close> only.\<close>

record UnitData =
  UnitData_Requisites :: "CompressedRequisite list"

type_synonym check_result = "bool \<times> string list \<times> error option"

abbreviation result_met :: "check_result \<Rightarrow> bool" where
  "result_met r \<equiv> fst r"

abbreviation result_messages :: "check_result \<Rightarrow> string list" where
  "result_messages r \<equiv> fst (snd r)"

abbreviation result_error :: "check_result \<Rightarrow> error option" where
  "result_error r \<equiv> snd (snd r)"

fun isUnitCompleted :: "CompressedUnit \<Rightarrow> Unit list \<Rightarrow> bool" where
  "isUnitCompleted unit [] = False"
| "isUnitCompleted unit (completed # rest) =
     (if Unit_Code completed = CompressedUnit_UnitCode unit then True
      else isUnitCompleted unit rest)"

text \<open>
  The rendering loop shared by the four messages:
  \<^verbatim>\<open>for i, unit := range mentionedUnits { message += unit; if i < len(mentionedUnits)-1 { message += sep } }\<close>
\<close>

fun joinMentioned :: "string \<Rightarrow> string list \<Rightarrow> string" where
  "joinMentioned sep [] = []"
| "joinMentioned sep [unit] = unit"
| "joinMentioned sep (unit # next # rest) = unit @ sep @ joinMentioned sep (next # rest)"

text \<open>
  Each loop over containers or sub-containers returns early, so it is a recursive
  function of its own: \<open>Inl\<close> is the error that leaves the enclosing function,
  \<open>Inr\<close> the loop's variables after the last iteration.
\<close>

function checkContainer :: "CompressedContainer list \<Rightarrow> Unit list \<Rightarrow> bool \<Rightarrow> check_result"
and checkContainer_loop ::
  "CompressedContainer list \<Rightarrow> Unit list \<Rightarrow> bool \<Rightarrow> string list \<Rightarrow> error + string list"
and checkContainerLogic :: "CompressedContainer \<Rightarrow> Unit list \<Rightarrow> bool \<Rightarrow> check_result"
and checkAndLogic :: "CompressedContainer \<Rightarrow> Unit list \<Rightarrow> bool \<Rightarrow> check_result"
and checkAndLogic_subs ::
  "CompressedContainer list \<Rightarrow> Unit list \<Rightarrow> bool \<Rightarrow> string list \<Rightarrow> error + string list"
and checkOrLogic :: "CompressedContainer \<Rightarrow> Unit list \<Rightarrow> bool \<Rightarrow> check_result"
and checkOrLogic_anyMet :: "CompressedContainer list \<Rightarrow> Unit list \<Rightarrow> error + bool"
and checkOrLogic_tally ::
  "CompressedContainer list \<Rightarrow> Unit list \<Rightarrow> string list \<Rightarrow> error + string list"
and checkOrLogic_collect ::
  "CompressedContainer list \<Rightarrow> Unit list \<Rightarrow> bool \<Rightarrow> string list \<Rightarrow> string list"
where
  "checkContainer containers completedUnits isProhibition =
     (if length containers = 0 then (True, [], None)
      else
        (case checkContainer_loop containers completedUnits isProhibition [] of
           Inl err \<Rightarrow> (False, [], Some (''error checking container logic: '' @ err))
         | Inr unmetRequisites \<Rightarrow>
             if length unmetRequisites > 0 then (False, unmetRequisites, None)
             else (True, [], None)))"
| "checkContainer_loop [] completedUnits isProhibition unmetRequisites = Inr unmetRequisites"
| "checkContainer_loop (container # rest) completedUnits isProhibition unmetRequisites =
     (case checkContainerLogic container completedUnits isProhibition of
        (met, messages, Some err) \<Rightarrow> Inl err
      | (met, messages, None) \<Rightarrow>
          checkContainer_loop rest completedUnits isProhibition
            (if \<not> met then unmetRequisites @ messages else unmetRequisites))"
| "checkContainerLogic container completedUnits isProhibition =
     (if CompressedContainer_Relationship container = ''AND''
        then checkAndLogic container completedUnits isProhibition
      else if CompressedContainer_Relationship container = ''OR''
        then checkOrLogic container completedUnits isProhibition
      else (False, [],
        Some (''unknown relationship type: '' @ CompressedContainer_Relationship container)))"
| "checkAndLogic container completedUnits isProhibition =
     (if length (CompressedContainer_Units container) = 0
         \<and> length (CompressedContainer_Containers container) = 0
      then (True, [], None)
      else if \<not> isProhibition then
        (let mentionedUnits =
               map CompressedUnit_UnitCode
                 (filter (\<lambda>unit. \<not> isUnitCompleted unit completedUnits)
                    (CompressedContainer_Units container))
         in case checkAndLogic_subs (CompressedContainer_Containers container)
                   completedUnits isProhibition [] of
              Inl err \<Rightarrow> (False, [], Some (''error checking subcontainer: '' @ err))
            | Inr subMessages \<Rightarrow>
                (let unmetRequisites =
                       (if length mentionedUnits > 0
                        then subMessages @ [''Requires: '' @ joinMentioned '' and '' mentionedUnits]
                        else subMessages)
                 in if length unmetRequisites > 0 then (False, unmetRequisites, None)
                    else (True, [], None)))
      else
        (let mentionedUnits =
               map CompressedUnit_UnitCode
                 (filter (\<lambda>unit. isUnitCompleted unit completedUnits)
                    (CompressedContainer_Units container))
         in case checkAndLogic_subs (CompressedContainer_Containers container)
                   completedUnits isProhibition [] of
              Inl err \<Rightarrow> (False, [], Some (''error checking subcontainer: '' @ err))
            | Inr subMessages \<Rightarrow>
                (let unmetRequisites =
                       (if length mentionedUnits > 0
                        then subMessages @
                          [''Prohibited by: '' @ joinMentioned '' and '' mentionedUnits]
                        else subMessages)
                 in if length unmetRequisites > 0 then (False, unmetRequisites, None)
                    else (True, [], None))))"
| "checkAndLogic_subs [] completedUnits isProhibition unmetRequisites = Inr unmetRequisites"
| "checkAndLogic_subs (subContainer # rest) completedUnits isProhibition unmetRequisites =
     (case checkContainer [subContainer] completedUnits isProhibition of
        (met, messages, Some err) \<Rightarrow> Inl err
      | (met, messages, None) \<Rightarrow>
          checkAndLogic_subs rest completedUnits isProhibition
            (if \<not> met then unmetRequisites @ messages else unmetRequisites))"
| "checkOrLogic container completedUnits isProhibition =
     (if length (CompressedContainer_Units container) = 0
         \<and> length (CompressedContainer_Containers container) = 0
      then (True, [], None)
      else if \<not> isProhibition then
        (if list_ex (\<lambda>unit. isUnitCompleted unit completedUnits)
              (CompressedContainer_Units container)
         then (True, [], None)
         else
           (case checkOrLogic_anyMet (CompressedContainer_Containers container) completedUnits of
              Inl err \<Rightarrow> (False, [], Some (''error checking subcontainer: '' @ err))
            | Inr True \<Rightarrow> (True, [], None)
            | Inr False \<Rightarrow>
                (let mentionedUnits =
                       map CompressedUnit_UnitCode
                         (filter (\<lambda>unit. \<not> isUnitCompleted unit completedUnits)
                            (CompressedContainer_Units container));
                     unmetRequisites =
                       checkOrLogic_collect (CompressedContainer_Containers container)
                         completedUnits isProhibition
                         (if length mentionedUnits > 0
                          then [''Requires one of: '' @ joinMentioned '' or '' mentionedUnits]
                          else [])
                 in if length unmetRequisites > 0 then (False, unmetRequisites, None)
                    else (isProhibition, [], None))))
      else
        (case checkOrLogic_tally (CompressedContainer_Containers container) completedUnits
                (map CompressedUnit_UnitCode
                   (filter (\<lambda>unit. isUnitCompleted unit completedUnits)
                      (CompressedContainer_Units container))) of
           Inl err \<Rightarrow> (False, [], Some (''error checking subcontainer: '' @ err))
         | Inr mentionedUnits \<Rightarrow>
             (let unmetRequisites =
                    checkOrLogic_collect (CompressedContainer_Containers container)
                      completedUnits isProhibition
                      (if length mentionedUnits > 0
                       then [''Prohibited by one of: '' @ joinMentioned '' or '' mentionedUnits]
                       else [])
              in if length unmetRequisites > 0 then (False, unmetRequisites, None)
                 else (isProhibition, [], None))))"
| "checkOrLogic_anyMet [] completedUnits = Inr False"
| "checkOrLogic_anyMet (subContainer # rest) completedUnits =
     (case checkContainer [subContainer] completedUnits False of
        (met, messages, Some err) \<Rightarrow> Inl err
      | (met, messages, None) \<Rightarrow>
          if met then Inr True else checkOrLogic_anyMet rest completedUnits)"
| "checkOrLogic_tally [] completedUnits mentionedUnits = Inr mentionedUnits"
| "checkOrLogic_tally (subContainer # rest) completedUnits mentionedUnits =
     (case checkContainer [subContainer] completedUnits True of
        (met, messages, Some err) \<Rightarrow> Inl err
      | (met, messages, None) \<Rightarrow>
          checkOrLogic_tally rest completedUnits
            (if met then mentionedUnits @ [''sub-container''] else mentionedUnits))"
| "checkOrLogic_collect [] completedUnits isProhibition unmetRequisites = unmetRequisites"
| "checkOrLogic_collect (subContainer # rest) completedUnits isProhibition unmetRequisites =
     (case checkContainer [subContainer] completedUnits isProhibition of
        (met, messages, err) \<Rightarrow>
          checkOrLogic_collect rest completedUnits isProhibition (unmetRequisites @ messages))"
  by pat_completeness auto

lemma size_CompressedContainer_Containers:
  "Suc (Suc (3 * size_list size (CompressedContainer_Containers c))) < 3 * size c"
  by (cases c) simp

text \<open>
  Every call goes to a smaller container, or stays on the same one and moves from a loop
  to \<open>checkContainer\<close>, from there to its loop, or from \<open>checkContainerLogic\<close> to the
  function it dispatches to.
\<close>

termination checkContainer
proof (relation "measure (\<lambda>x. case x of
    Inl (Inl (Inl (cs, _))) \<Rightarrow> 3 * size_list size cs + 1
  | Inl (Inl (Inr (cs, _))) \<Rightarrow> 3 * size_list size cs
  | Inl (Inr (Inl (c, _))) \<Rightarrow> 3 * size c + 1
  | Inl (Inr (Inr (c, _))) \<Rightarrow> 3 * size c
  | Inr (Inl (Inl (cs, _))) \<Rightarrow> 3 * size_list size cs + 2
  | Inr (Inl (Inr (c, _))) \<Rightarrow> 3 * size c
  | Inr (Inr (Inl (cs, _))) \<Rightarrow> 3 * size_list size cs + 2
  | Inr (Inr (Inr (Inl (cs, _)))) \<Rightarrow> 3 * size_list size cs + 2
  | Inr (Inr (Inr (Inr (cs, _)))) \<Rightarrow> 3 * size_list size cs + 2)")
qed (simp_all add: size_CompressedContainer_Containers)

declare checkContainer.simps [simp del] checkContainerLogic.simps [simp del]
  checkAndLogic.simps [simp del] checkOrLogic.simps [simp del]

fun CheckRequisites_loop ::
  "CompressedRequisite list \<Rightarrow> Unit list \<Rightarrow> string list \<Rightarrow> error + string list" where
  "CheckRequisites_loop [] completedUnits unmetRequisites = Inr unmetRequisites"
| "CheckRequisites_loop (requisite # rest) completedUnits unmetRequisites =
     (if CompressedRequisite_RequisiteType requisite = ''Prerequisite'' then
        (case checkContainer (CompressedRequisite_Containers requisite) completedUnits False of
           (met, messages, Some err) \<Rightarrow>
             Inl (''error checking prerequisite container: '' @ err)
         | (met, messages, None) \<Rightarrow>
             CheckRequisites_loop rest completedUnits
               (if \<not> met then unmetRequisites @ messages else unmetRequisites))
      else if CompressedRequisite_RequisiteType requisite = ''Prohibition'' then
        (case checkContainer (CompressedRequisite_Containers requisite) completedUnits True of
           (met, messages, Some err) \<Rightarrow>
             Inl (''error checking prohibition container: '' @ err)
         | (met, messages, None) \<Rightarrow>
             CheckRequisites_loop rest completedUnits
               (if \<not> met then unmetRequisites @ messages else unmetRequisites))
      else CheckRequisites_loop rest completedUnits unmetRequisites)"

definition CheckRequisites :: "UnitData \<Rightarrow> Unit list \<Rightarrow> check_result" where
  "CheckRequisites unitData completedUnits =
     (if length (UnitData_Requisites unitData) = 0 then (True, [], None)
      else
        (case CheckRequisites_loop (UnitData_Requisites unitData) completedUnits [] of
           Inl err \<Rightarrow> (False, [], Some err)
         | Inr unmetRequisites \<Rightarrow>
             if length unmetRequisites > 0 then (False, unmetRequisites, None)
             else (True, [], None)))"

section \<open>Curriculum structure builder (package common, utils/string_utils.go, utils/json_navigator.go)\<close>

text \<open>
  The raw document is what \<open>encoding/json\<close> decodes into \<open>interface{}\<close>: \<open>nil\<close>, a
  \<open>bool\<close>, a \<open>float64\<close>, a \<open>string\<close>, a \<open>[]interface{}\<close> or a
  \<open>map[string]interface{}\<close>. The builder never reads the value of a number, which is kept
  as an integer here. An object is an association list read with \<open>map_of\<close>. What the
  builder writes to the log is not part of the model.
\<close>

datatype json =
  JNull
| JBool bool
| JNumber int
| JString string
| JArray "json list"
| JObject "(string \<times> json) list"

type_synonym json_object = "(string \<times> json) list"

text \<open>
  A failed type assertion without the \<open>ok\<close> result (\<open>partMap["order"].(string)\<close>) panics;
  \<open>Panic\<close> is that outcome, \<open>Return\<close> the values a function returns.
\<close>

datatype 'a outcome = Panic | Return 'a

text \<open>\<open>s, _ := m[key].(string)\<close>: the string, or the empty string.\<close>

definition getString :: "json_object \<Rightarrow> string \<Rightarrow> string" where
  "getString m key = (case map_of m key of Some (JString s) \<Rightarrow> s | _ \<Rightarrow> [])"

subsection \<open>utils.StringToInt and utils.RemoveHTMLTags\<close>

definition is_digit :: "char \<Rightarrow> bool" where
  "is_digit ch = (48 \<le> (of_char ch :: int) \<and> (of_char ch :: int) \<le> 57)"

fun decimal_value :: "string \<Rightarrow> int \<Rightarrow> int" where
  "decimal_value [] n = n"
| "decimal_value (ch # rest) n = decimal_value rest (n * 10 + (of_char ch - 48))"

text \<open>
  \<open>FindString\<close> of \<open>[0-9]+\<close> is the first maximal run of digits, or the empty string.
  \<open>strconv.Atoi\<close> of a run of digits is its value, or \<open>1<<63 - 1\<close> with a range error
  when the value does not fit the 64-bit \<open>int\<close>, and 0 with a syntax error on the
  empty string; \<open>StringToInt\<close> drops the error.
\<close>

definition StringToInt :: "string \<Rightarrow> int" where
  "StringToInt s =
     (let numStr = takeWhile is_digit (dropWhile (\<lambda>ch. \<not> is_digit ch) s);
          num = decimal_value numStr 0
      in if num > 2 ^ 63 - 1 then 2 ^ 63 - 1 else num)"

text \<open>\<open>\s\<close> of Go's regular expressions: tab, line feed, form feed, carriage return, space.\<close>

definition is_space :: "char \<Rightarrow> bool" where
  "is_space ch = (of_char ch \<in> {9, 10, 12, 13, 32 :: int})"

text \<open>
  What follows a match of \<open><br\s*/?>\<close>, respectively of \<open><[^>]*>\<close>, at the start of the
  input, if there is one.
\<close>

definition match_br :: "string \<Rightarrow> string option" where
  "match_br s =
     (if take 3 s = ''<br'' then
        (let rest1 = dropWhile is_space (drop 3 s);
             rest2 = (if take 1 rest1 = ''/'' then drop 1 rest1 else rest1)
         in if take 1 rest2 = ''>'' then Some (drop 1 rest2) else None)
      else None)"

definition match_tag :: "string \<Rightarrow> string option" where
  "match_tag s =
     (if take 1 s = ''<'' then
        (let rest1 = dropWhile (\<lambda>ch. ch \<noteq> CHR ''>'') (drop 1 s)
         in if take 1 rest1 = ''>'' then Some (drop 1 rest1) else None)
      else None)"

lemma match_br_shorter: "match_br s = Some rest \<Longrightarrow> length rest < length s"
  using length_dropWhile_le [of is_space "drop 3 s"]
  by (cases s) (auto simp: match_br_def Let_def split: if_splits)

lemma match_tag_shorter: "match_tag s = Some rest \<Longrightarrow> length rest < length s"
  using length_dropWhile_le [of "\<lambda>ch. ch \<noteq> CHR ''>''" "drop 1 s"]
  by (cases s) (auto simp: match_tag_def Let_def split: if_splits)

text \<open>\<open>ReplaceAllString\<close>: the matches are replaced from left to right, without overlap.\<close>

function replace_br :: "string \<Rightarrow> string" where
  "replace_br [] = []"
| "replace_br (ch # rest) =
     (case match_br (ch # rest) of
        Some after \<Rightarrow> CHR 0x0A # replace_br after
      | None \<Rightarrow> ch # replace_br rest)"
  by pat_completeness auto

termination
  by (relation "measure length") (auto dest: match_br_shorter)

function remove_tags :: "string \<Rightarrow> string" where
  "remove_tags [] = []"
| "remove_tags (ch # rest) =
     (case match_tag (ch # rest) of
        Some after \<Rightarrow> remove_tags after
      | None \<Rightarrow> ch # remove_tags rest)"
  by pat_completeness auto

termination
  by (relation "measure length") (auto dest: match_tag_shorter)

definition RemoveHTMLTags :: "string \<Rightarrow> string" where
  "RemoveHTMLTags s = remove_tags (replace_br s)"

subsection \<open>utils.GetTypedValue at type \<open>map[string]interface{}\<close>\<close>

fun splitFieldPath_loop :: "string \<Rightarrow> string \<Rightarrow> string list \<Rightarrow> string list" where
  "splitFieldPath_loop [] current keys = (if current \<noteq> [] then keys @ [current] else keys)"
| "splitFieldPath_loop (char # rest) current keys =
     (if char = CHR ''.'' then
        (if current \<noteq> [] then splitFieldPath_loop rest [] (keys @ [current])
         else splitFieldPath_loop rest current keys)
      else splitFieldPath_loop rest (current @ [char]) keys)"

definition splitFieldPath :: "string \<Rightarrow> string list" where
  "splitFieldPath path = splitFieldPath_loop path [] []"

text \<open>\<open>findInterface\<close> returns the value at the path, or an error, which is \<open>None\<close> here.\<close>

fun findInterface_loop :: "json_object \<Rightarrow> string list \<Rightarrow> json option" where
  "findInterface_loop current [] = None"
| "findInterface_loop current (key # rest) =
     (case map_of current key of
        None \<Rightarrow> None
      | Some v \<Rightarrow>
          if rest = [] then Some v
          else (case v of JObject nestedMap \<Rightarrow> findInterface_loop nestedMap rest | _ \<Rightarrow> None))"

definition findInterface :: "json_object \<Rightarrow> string \<Rightarrow> json option" where
  "findInterface data path = findInterface_loop data (splitFieldPath path)"

text \<open>
  At this type \<open>GetTypedValue\<close> returns the object at the path, and the zero value, a
  \<open>nil\<close> map that reads as the empty map, when the path is missing or holds anything else.
\<close>

definition GetTypedValue_map :: "json_object \<Rightarrow> string \<Rightarrow> json_object" where
  "GetTypedValue_map data path =
     (case findInterface data path of
        Some (JObject m) \<Rightarrow> m
      | _ \<Rightarrow> [])"

subsection \<open>The curriculum tree\<close>

record AcademicItem =
  AcademicItem_Type :: string
  AcademicItem_Title :: string
  AcademicItem_Code :: string
  AcademicItem_Description :: string
  AcademicItem_CreditPoints :: int
  AcademicItem_URL :: string

datatype Container =
  Container
    (Container_Title: string)
    (Container_Description: string)
    (Container_CreditPointsRequired: int)
    (Container_Containers: "Container list")
    (Container_AcademicItems: "AcademicItem list")
    (Container_Connector: string)

record Part =
  Part_Title :: string
  Part_Description :: string
  Part_CreditPointsRequired :: int
  Part_Containers :: "Container list"
  Part_AcademicItems :: "AcademicItem list"
  Part_Order :: int
  Part_Connector :: string

record Curriculum =
  Curriculum_TotalCreditPoints :: int
  Curriculum_Parts :: "Part list"

subsection \<open>parseItems\<close>

definition parseItems_item :: "json_object \<Rightarrow> AcademicItem" where
  "parseItems_item itemMap =
     (let description = RemoveHTMLTags (getString itemMap ''description'');
          code = getString itemMap ''academic_item_code'';
          name = getString itemMap ''academic_item_name'';
          creditPoints = StringToInt (getString itemMap ''academic_item_credit_points'');
          url = getString itemMap ''academic_item_url'';
          itemType = (case map_of itemMap ''academic_item_type'' of
                        Some (JObject m) \<Rightarrow> m | _ \<Rightarrow> []);
          itemTypeValue = getString itemType ''value''
      in \<lparr>AcademicItem_Type = itemTypeValue, AcademicItem_Title = name,
          AcademicItem_Code = code, AcademicItem_Description = description,
          AcademicItem_CreditPoints = creditPoints, AcademicItem_URL = url\<rparr>)"

fun parseItems_loop :: "json list \<Rightarrow> AcademicItem list \<Rightarrow> AcademicItem list" where
  "parseItems_loop [] academicItems = academicItems"
| "parseItems_loop (itemInterface # rest) academicItems =
     (case itemInterface of
        JObject itemMap \<Rightarrow> parseItems_loop rest (academicItems @ [parseItems_item itemMap])
      | _ \<Rightarrow> parseItems_loop rest academicItems)"

text \<open>
  After its loop \<open>parseItems\<close> writes the parent connector of the first relationship
  entry into the node's own map, under the key \<open>connector\<close>: the third component of the
  result is the map after the call.
\<close>

definition parseItems_connector :: "json_object \<Rightarrow> json_object" where
  "parseItems_connector containerMap =
     (case map_of containerMap ''relationship'' of
        Some (JArray (JObject relMap # others)) \<Rightarrow>
          (case map_of relMap ''parent_connector'' of
             Some (JObject connectorMap) \<Rightarrow>
               (case map_of connectorMap ''value'' of
                  Some (JString connectorValue) \<Rightarrow>
                    (''connector'', JString connectorValue) # containerMap
                | _ \<Rightarrow> containerMap)
           | _ \<Rightarrow> containerMap)
      | _ \<Rightarrow> containerMap)"

definition parseItems ::
  "json \<Rightarrow> json_object \<Rightarrow> AcademicItem list \<times> error option \<times> json_object" where
  "parseItems itemsData containerMap =
     (case itemsData of
        JArray itemsSlice \<Rightarrow>
          (parseItems_loop itemsSlice [], None, parseItems_connector containerMap)
      | _ \<Rightarrow> ([], None, containerMap))"

subsection \<open>parseContainers\<close>

text \<open>
  One iteration of the loop of \<open>parseContainers\<close> on an entry that is an object. The
  recursive call is made by the loop on \<open>parseContainers_nestedRaw\<close>, the value the
  iteration reads under the key \<open>container\<close> when it is there and not \<open>nil\<close>;
  \<open>nested\<close> is what that call returned. The iteration returns the container and the new
  value of \<open>parentConnector\<close>.
\<close>

definition parseContainers_nestedRaw :: "json_object \<Rightarrow> json option" where
  "parseContainers_nestedRaw containerMap =
     (let containerMap' =
            (case map_of containerMap ''relationship'' of
               Some relationshipsRaw \<Rightarrow> snd (snd (parseItems relationshipsRaw containerMap))
             | None \<Rightarrow> containerMap)
      in case map_of containerMap' ''container'' of
           Some nestedContainersRaw \<Rightarrow>
             if nestedContainersRaw \<noteq> JNull then Some nestedContainersRaw else None
         | None \<Rightarrow> None)"

definition parseContainers_entry ::
  "json_object \<Rightarrow> (Container list \<times> string \<times> error option) option
     \<Rightarrow> (Container \<times> string) outcome" where
  "parseContainers_entry containerMap nested =
     (let description = RemoveHTMLTags (getString containerMap ''description'');
          title = getString containerMap ''title'';
          creditPoints = StringToInt (getString containerMap ''credit_points'')
      in case map_of containerMap ''parent_connector'' of
           Some (JObject conn) \<Rightarrow>
             (case map_of conn ''value'' of
                Some (JString parentConnector) \<Rightarrow>
                  (let academicItems =
                         (case map_of containerMap ''relationship'' of
                            Some relationshipsRaw \<Rightarrow> fst (parseItems relationshipsRaw containerMap)
                          | None \<Rightarrow> []);
                       connector1 =
                         (case nested of
                            Some (nestedContainers, relationship, err) \<Rightarrow>
                              if relationship \<noteq> [] then relationship else ''AND''
                          | None \<Rightarrow> ''AND'');
                       containers =
                         (case nested of
                            Some (nestedContainers, relationship, err) \<Rightarrow> nestedContainers
                          | None \<Rightarrow> []);
                       connector2 =
                         (case containers of
                            first # others \<Rightarrow>
                              if Container_CreditPointsRequired first = creditPoints then ''OR''
                              else connector1
                          | [] \<Rightarrow> connector1);
                       connector3 =
                         (case academicItems of
                            first # others \<Rightarrow>
                              if AcademicItem_CreditPoints first = creditPoints then ''OR''
                              else connector2
                          | [] \<Rightarrow> connector2)
                   in Return
                        (Container title description creditPoints containers academicItems
                           connector3,
                         parentConnector))
              | _ \<Rightarrow> Panic)
         | _ \<Rightarrow> Panic)"

lemma size_map_of:
  "map_of m key = Some v \<Longrightarrow> size v < Suc (size_list (size_prod (\<lambda>_. 0) size) m)"
  by (induction m) (auto split: if_splits)

lemma parseContainers_nestedRaw_size:
  "parseContainers_nestedRaw containerMap = Some raw \<Longrightarrow> size raw < size (JObject containerMap)"
  by (auto simp: parseContainers_nestedRaw_def parseItems_def parseItems_connector_def Let_def
      split: option.splits json.splits list.splits if_splits dest: size_map_of)

function parseContainers :: "json \<Rightarrow> (Container list \<times> string \<times> error option) outcome"
and parseContainers_loop ::
  "json list \<Rightarrow> Container list \<Rightarrow> string \<Rightarrow> (Container list \<times> string \<times> error option) outcome"
where
  "parseContainers containerData =
     (case containerData of
        JArray containerSlice \<Rightarrow> parseContainers_loop containerSlice [] []
      | _ \<Rightarrow> Return ([], [], None))"
| "parseContainers_loop [] containers parentConnector =
     Return (containers, parentConnector, None)"
| "parseContainers_loop (containerInterface # rest) containers parentConnector =
     (case containerInterface of
        JObject containerMap \<Rightarrow>
          (case (case parseContainers_nestedRaw containerMap of
                   Some nestedContainersRaw \<Rightarrow>
                     (case parseContainers nestedContainersRaw of
                        Panic \<Rightarrow> Panic
                      | Return nested \<Rightarrow> Return (Some nested))
                 | None \<Rightarrow> Return None) of
             Panic \<Rightarrow> Panic
           | Return nested \<Rightarrow>
               (case parseContainers_entry containerMap nested of
                  Panic \<Rightarrow> Panic
                | Return (container, parentConnector') \<Rightarrow>
                    parseContainers_loop rest (containers @ [container]) parentConnector'))
      | _ \<Rightarrow> parseContainers_loop rest containers parentConnector)"
  by pat_completeness auto

termination
  by (relation "measure (\<lambda>x. case x of
         Inl containerData \<Rightarrow> size containerData
       | Inr (containerSlice, _) \<Rightarrow> size_list size containerSlice)")
     (auto dest: parseContainers_nestedRaw_size)

declare parseContainers.simps [simp del]

subsection \<open>ParseCurriculum\<close>

text \<open>
  One iteration of the loop of \<open>ParseCurriculum\<close> on an entry that is an object, with
  the total credit points parsed before the loop. Its two blocks are definitions of their
  own: \<open>ParseCurriculum_containers\<close> is the block
  \<^verbatim>\<open>if containersRaw, exists := partMap["container"]; exists { ... }\<close> and
  \<open>ParseCurriculum_items\<close> the block \<^verbatim>\<open>if len(part.Containers) == 0 { ... }\<close>,
  each from the part before it to the part after it.
\<close>

definition ParseCurriculum_containers :: "Part \<Rightarrow> json_object \<Rightarrow> Part outcome" where
  "ParseCurriculum_containers part partMap =
     (case map_of partMap ''container'' of
        Some containersRaw \<Rightarrow>
          (case parseContainers containersRaw of
             Panic \<Rightarrow> Panic
           | Return (containers, relationship, err) \<Rightarrow>
               (let part' = part\<lparr>Part_Containers := Part_Containers part @ containers\<rparr>
                in Return
                     (case Part_Containers part' of
                        first # others \<Rightarrow>
                          if Container_CreditPointsRequired first = Part_CreditPointsRequired part'
                          then part'\<lparr>Part_Connector := ''OR''\<rparr>
                          else part'
                      | [] \<Rightarrow> part')))
      | None \<Rightarrow> Return part)"

definition ParseCurriculum_items :: "Part \<Rightarrow> json_object \<Rightarrow> Part" where
  "ParseCurriculum_items part partMap =
     (if length (Part_Containers part) = 0 then
        (case map_of partMap ''relationship'' of
           Some relationshipsRaw \<Rightarrow>
             (let items = fst (parseItems relationshipsRaw partMap);
                  part' = (if length items > 0 then part\<lparr>Part_AcademicItems := items\<rparr>
                           else part)
              in case Part_AcademicItems part' of
                   first # others \<Rightarrow>
                     if AcademicItem_CreditPoints first = Part_CreditPointsRequired part'
                     then part'\<lparr>Part_Connector := ''OR''\<rparr>
                     else part'
                 | [] \<Rightarrow> part')
         | None \<Rightarrow> part)
      else part)"

definition ParseCurriculum_part :: "int \<Rightarrow> json_object \<Rightarrow> Part outcome" where
  "ParseCurriculum_part totalCreditPoints partMap =
     (let description = RemoveHTMLTags (getString partMap ''description'');
          title = getString partMap ''title'';
          creditPoints = StringToInt (getString partMap ''credit_points'')
      in case map_of partMap ''order'' of
           Some (JString orderStr) \<Rightarrow>
             (case ParseCurriculum_containers
                     \<lparr>Part_Title = title, Part_Description = description,
                      Part_CreditPointsRequired = creditPoints, Part_Containers = [],
                      Part_AcademicItems = [], Part_Order = StringToInt orderStr,
                      Part_Connector = ''AND''\<rparr>
                     partMap of
                Panic \<Rightarrow> Panic
              | Return part1 \<Rightarrow>
                  (let part2 = ParseCurriculum_items part1 partMap
                   in Return
                        (if Part_CreditPointsRequired part2 = totalCreditPoints
                         then part2\<lparr>Part_CreditPointsRequired := 0\<rparr>
                         else part2)))
         | _ \<Rightarrow> Panic)"

fun ParseCurriculum_loop :: "int \<Rightarrow> json list \<Rightarrow> Part list \<Rightarrow> Part list outcome" where
  "ParseCurriculum_loop totalCreditPoints [] parts = Return parts"
| "ParseCurriculum_loop totalCreditPoints (partInterface # rest) parts =
     (case partInterface of
        JObject partMap \<Rightarrow>
          (case ParseCurriculum_part totalCreditPoints partMap of
             Panic \<Rightarrow> Panic
           | Return part \<Rightarrow> ParseCurriculum_loop totalCreditPoints rest (parts @ [part]))
      | _ \<Rightarrow> ParseCurriculum_loop totalCreditPoints rest parts)"

definition ParseCurriculum :: "json_object \<Rightarrow> (Curriculum \<times> error option) outcome" where
  "ParseCurriculum rawJSON =
     (let data = GetTypedValue_map rawJSON ''props.pageProps.pageContent.curriculumStructure''
      in case map_of data ''credit_points'' of
           Some (JString totalCreditsStr) \<Rightarrow>
             (let totalCreditPoints = StringToInt totalCreditsStr
              in case map_of data ''container'' of
                   Some (JArray partsData) \<Rightarrow>
                     (case ParseCurriculum_loop totalCreditPoints partsData [] of
                        Panic \<Rightarrow> Panic
                      | Return parts \<Rightarrow>
                          Return (\<lparr>Curriculum_TotalCreditPoints = totalCreditPoints,
                                   Curriculum_Parts = parts\<rparr>, None))
                 | _ \<Rightarrow>
                     Return (\<lparr>Curriculum_TotalCreditPoints = totalCreditPoints,
                              Curriculum_Parts = []\<rparr>,
                             Some ''parts container not found or not an array''))
         | _ \<Rightarrow>
             Return (\<lparr>Curriculum_TotalCreditPoints = 0, Curriculum_Parts = []\<rparr>,
                     Some ''total credit points not found or not a string''))"

section \<open>The words of the specification\<close>

text \<open>
  The message a list of codes is rendered as, in the words of the specification:
  \<open>prefix code1 sep code2 sep ...\<close>, and no message for no code.
\<close>

definition rendered_message :: "string \<Rightarrow> string \<Rightarrow> string list \<Rightarrow> string list" where
  "rendered_message prefix sep codes =
     (case codes of [] \<Rightarrow> []
      | code # others \<Rightarrow> [prefix @ code @ concat (map (\<lambda>x. sep @ x) others)])"

text \<open>The entries of the parts array that are objects: the entries the loop does not skip.\<close>

definition objectEntries :: "json list \<Rightarrow> json_object list" where
  "objectEntries entries = concat (map (\<lambda>j. case j of JObject m \<Rightarrow> [m] | _ \<Rightarrow> []) entries)"

definition curriculumStructure :: "json_object \<Rightarrow> json_object" where
  "curriculumStructure rawJSON =
     GetTypedValue_map rawJSON ''props.pageProps.pageContent.curriculumStructure''"

definition partEntries :: "json_object \<Rightarrow> json_object list" where
  "partEntries rawJSON =
     (case map_of (curriculumStructure rawJSON) ''container'' of
        Some (JArray partsData) \<Rightarrow> objectEntries partsData
      | _ \<Rightarrow> [])"

text \<open>
  The connector the specification infers for a node from its required credit points and
  the credit points of its first child: the first sub-container, or the first academic
  item when there is no sub-container.
\<close>

definition spec_connector :: "int \<Rightarrow> int option \<Rightarrow> string" where
  "spec_connector required firstChild = (if firstChild = Some required then ''OR'' else ''AND'')"

definition firstChild :: "Container list \<Rightarrow> AcademicItem list \<Rightarrow> int option" where
  "firstChild containers academicItems =
     (case containers of
        first # others \<Rightarrow> Some (Container_CreditPointsRequired first)
      | [] \<Rightarrow>
          (case academicItems of
             first # others \<Rightarrow> Some (AcademicItem_CreditPoints first)
           | [] \<Rightarrow> None))"

text \<open>
  The string a container entry of the document declares under \<open>parent_connector.value\<close>,
  and the entries of the array a node holds under the key \<open>container\<close> that are objects.
\<close>

definition parentConnectorValue :: "json_object \<Rightarrow> string" where
  "parentConnectorValue containerMap =
     (case map_of containerMap ''parent_connector'' of
        Some (JObject conn) \<Rightarrow> getString conn ''value''
      | _ \<Rightarrow> [])"

definition nestedEntries :: "json_object \<Rightarrow> json_object list" where
  "nestedEntries nodeMap =
     (case map_of nodeMap ''container'' of
        Some (JArray entries) \<Rightarrow> objectEntries entries
      | _ \<Rightarrow> [])"

text \<open>
  The connector string a list of sibling container entries hands up to their parent: the
  \<open>parent_connector\<close> value of the last entry, and the empty string for no entry. A
  container whose first child does not match its credit points takes this string from its
  nested entries as its connector, and \<open>AND\<close> when the string is empty.
\<close>

definition handedUpConnector :: "json_object list \<Rightarrow> string" where
  "handedUpConnector entries =
     (if entries = [] then [] else parentConnectorValue (last entries))"

definition inheritedConnector :: "json_object \<Rightarrow> string" where
  "inheritedConnector containerMap =
     (if handedUpConnector (nestedEntries containerMap) = [] then ''AND''
      else handedUpConnector (nestedEntries containerMap))"

text \<open>
  A container of the result follows its entry of the document: its credit points are the
  credit points parsed from the entry; without sub-containers its connector is the
  connector the specification infers from its first academic item; with sub-containers
  its connector is \<open>OR\<close> when the first sub-container or the first academic item declares
  credit points equal to its own, and the connector inherited from its nested entries
  otherwise; and its sub-containers follow its nested entries, one by one.
\<close>

fun connector_follows :: "json_object \<Rightarrow> Container \<Rightarrow> bool" where
  "connector_follows containerMap
     (Container title description creditPoints containers academicItems connector) =
     (creditPoints = StringToInt (getString containerMap ''credit_points'')
      \<and> connector =
          (case containers of
             [] \<Rightarrow> spec_connector creditPoints (firstChild [] academicItems)
           | first # others \<Rightarrow>
               if firstChild containers academicItems = Some creditPoints
                  \<or> firstChild [] academicItems = Some creditPoints
               then ''OR''
               else inheritedConnector containerMap)
      \<and> list_all2 connector_follows (nestedEntries containerMap) containers)"

section \<open>Example inputs\<close>

definition compressedUnit :: "string \<Rightarrow> string \<Rightarrow> CompressedUnit" where
  "compressedUnit code number =
     \<lparr>CompressedUnit_UnitCode = code, CompressedUnit_UnitNumber = number\<rparr>"

definition completedUnit :: "string \<Rightarrow> Unit" where
  "completedUnit code =
     \<lparr>Unit_Code = code, Unit_Name = [], Unit_CreditPoints = 0, Unit_Description = [],
      Unit_URL = []\<rparr>"

lemmas example_defs = compressedUnit_def completedUnit_def

lemmas evaluator_simps = checkContainer.simps checkContainerLogic.simps checkAndLogic.simps
  checkOrLogic.simps

text \<open>Example documents.\<close>

definition curriculumDocument :: "string \<Rightarrow> json list \<Rightarrow> json_object" where
  "curriculumDocument totalCreditPoints parts =
     [(''props'', JObject [(''pageProps'', JObject [(''pageContent'', JObject
        [(''curriculumStructure'', JObject
           [(''credit_points'', JString totalCreditPoints), (''container'', JArray parts)])])])])]"

definition partEntry :: "string \<Rightarrow> string \<Rightarrow> json list \<Rightarrow> json list \<Rightarrow> json" where
  "partEntry title creditPoints containers relationships =
     JObject [(''title'', JString title), (''description'', JString []),
              (''credit_points'', JString creditPoints), (''order'', JString ''1''),
              (''container'', JArray containers), (''relationship'', JArray relationships)]"

definition containerFields ::
  "string \<Rightarrow> string \<Rightarrow> string \<Rightarrow> json list \<Rightarrow> json list \<Rightarrow> json_object" where
  "containerFields title creditPoints parentConnector containers relationships =
     [(''title'', JString title), (''description'', JString []),
      (''credit_points'', JString creditPoints),
      (''parent_connector'', JObject [(''label'', JString parentConnector),
                                      (''value'', JString parentConnector)]),
      (''container'', JArray containers), (''relationship'', JArray relationships)]"

definition containerEntry ::
  "string \<Rightarrow> string \<Rightarrow> string \<Rightarrow> json list \<Rightarrow> json list \<Rightarrow> json" where
  "containerEntry title creditPoints parentConnector containers relationships =
     JObject (containerFields title creditPoints parentConnector containers relationships)"

definition relationshipEntry :: "string \<Rightarrow> string \<Rightarrow> json" where
  "relationshipEntry code creditPoints =
     JObject [(''academic_item_code'', JString code), (''academic_item_name'', JString code),
              (''academic_item_credit_points'', JString creditPoints),
              (''academic_item_url'', JString []),
              (''academic_item_type'', JObject [(''value'', JString ''unit'')]),
              (''parent_connector'', JObject [(''value'', JString ''AND'')])]"

definition numericTotalDocument :: json_object where
  "numericTotalDocument =
     [(''props'', JObject [(''pageProps'', JObject [(''pageContent'', JObject
        [(''curriculumStructure'', JObject
           [(''credit_points'', JNumber 48), (''container'', JArray [])])])])])]"

lemmas document_defs = curriculumDocument_def partEntry_def containerFields_def
  containerEntry_def relationshipEntry_def

section \<open>The evaluator's loop functions in closed form\<close>

lemma isUnitCompleted_iff:
  "isUnitCompleted unit completed \<longleftrightarrow> CompressedUnit_UnitCode unit \<in> Unit_Code ` set completed"
  by (induction completed) auto

lemma joinMentioned_Cons:
  "joinMentioned sep (x # xs) = x @ concat (map (\<lambda>y. sep @ y) xs)"
  by (induction xs arbitrary: x) simp_all

lemma checkContainer_consistent:
  "checkContainer cs completed p = (b, m, e) \<Longrightarrow>
     (e = None \<longrightarrow> b = (m = [])) \<and> (e \<noteq> None \<longrightarrow> \<not> b \<and> m = [])"
  by (auto simp: checkContainer.simps split: if_splits sum.splits)

lemma checkContainer_met_iff:
  "result_met (checkContainer cs completed p) \<longleftrightarrow>
     result_error (checkContainer cs completed p) = None
     \<and> result_messages (checkContainer cs completed p) = []"
  using checkContainer_consistent [of cs completed p]
  by (cases "checkContainer cs completed p") auto

lemma checkAndLogic_subs_eq:
  "checkAndLogic_subs cs completed p acc =
     (case find (\<lambda>sub. result_error (checkContainer [sub] completed p) \<noteq> None) cs of
        Some sub \<Rightarrow> Inl (the (result_error (checkContainer [sub] completed p)))
      | None \<Rightarrow>
          Inr (acc @ concat (map (\<lambda>sub. result_messages (checkContainer [sub] completed p)) cs)))"
proof (induction cs arbitrary: acc)
  case Nil
  show ?case by simp
next
  case (Cons sub rest)
  obtain b m e where r: "checkContainer [sub] completed p = (b, m, e)"
    by (cases "checkContainer [sub] completed p") auto
  from checkContainer_consistent [OF r] show ?case
    by (cases e) (simp_all add: r Cons.IH split: option.split)
qed

lemma checkOrLogic_collect_eq:
  "checkOrLogic_collect cs completed p acc =
     acc @ concat (map (\<lambda>sub. result_messages (checkContainer [sub] completed p)) cs)"
  by (induction cs arbitrary: acc) (simp_all split: prod.split)

lemma checkOrLogic_anyMet_eq:
  "checkOrLogic_anyMet cs completed =
     (case find (\<lambda>sub. result_error (checkContainer [sub] completed False) \<noteq> None
                       \<or> result_met (checkContainer [sub] completed False)) cs of
        None \<Rightarrow> Inr False
      | Some sub \<Rightarrow>
          (case result_error (checkContainer [sub] completed False) of
             Some err \<Rightarrow> Inl err
           | None \<Rightarrow> Inr True))"
proof (induction cs)
  case Nil
  show ?case by simp
next
  case (Cons sub rest)
  obtain b m e where r: "checkContainer [sub] completed False = (b, m, e)"
    by (cases "checkContainer [sub] completed False") auto
  show ?case
    by (cases e) (simp_all add: r Cons.IH split: option.split)
qed

lemma checkOrLogic_tally_eq:
  "checkOrLogic_tally cs completed acc =
     (case find (\<lambda>sub. result_error (checkContainer [sub] completed True) \<noteq> None) cs of
        Some sub \<Rightarrow> Inl (the (result_error (checkContainer [sub] completed True)))
      | None \<Rightarrow>
          Inr (acc @ map (\<lambda>sub. ''sub-container'')
                 (filter (\<lambda>sub. result_met (checkContainer [sub] completed True)) cs)))"
proof (induction cs arbitrary: acc)
  case Nil
  show ?case by simp
next
  case (Cons sub rest)
  obtain b m e where r: "checkContainer [sub] completed True = (b, m, e)"
    by (cases "checkContainer [sub] completed True") auto
  show ?case
    by (cases e) (simp_all add: r Cons.IH split: option.split)
qed

lemma rendered_message_Nil [simp]: "rendered_message prefix sep [] = []"
  by (simp add: rendered_message_def)

lemma rendered_message_eq_Nil [simp]: "rendered_message prefix sep codes = [] \<longleftrightarrow> codes = []"
  by (cases codes) (simp_all add: rendered_message_def)

lemma append_rendered:
  "(if 0 < length codes then subs @ [prefix @ joinMentioned sep codes] else subs)
     = subs @ rendered_message prefix sep codes"
  by (cases codes) (simp_all add: rendered_message_def joinMentioned_Cons)

lemma singleton_rendered:
  "(if 0 < length codes then [prefix @ joinMentioned sep codes] else [])
     = rendered_message prefix sep codes"
  by (cases codes) (simp_all add: rendered_message_def joinMentioned_Cons)

lemma checkAndLogic_eq:
  "checkAndLogic c completed p =
     (case find (\<lambda>sub. result_error (checkContainer [sub] completed p) \<noteq> None)
             (CompressedContainer_Containers c) of
        Some sub \<Rightarrow>
          (False, [], Some (''error checking subcontainer: ''
             @ the (result_error (checkContainer [sub] completed p))))
      | None \<Rightarrow>
          (let ms = concat (map (\<lambda>sub. result_messages (checkContainer [sub] completed p))
                             (CompressedContainer_Containers c))
                    @ rendered_message (if p then ''Prohibited by: '' else ''Requires: '') '' and ''
                        (map CompressedUnit_UnitCode
                           (filter (\<lambda>u. isUnitCompleted u completed = p)
                              (CompressedContainer_Units c)))
           in (ms = [], ms, None)))"
  apply (subst checkAndLogic.simps)
  apply (simp only: Let_def append_rendered checkAndLogic_subs_eq)
  apply (cases p)
   apply (auto split: option.split)
  done

lemma checkOrLogic_prerequisite_nonempty:
  assumes ne: "\<not> (CompressedContainer_Units c = [] \<and> CompressedContainer_Containers c = [])"
    and nu: "\<not> (\<exists>u \<in> set (CompressedContainer_Units c). isUnitCompleted u completed)"
    and nf: "find (\<lambda>sub. result_error (checkContainer [sub] completed False) \<noteq> None
                        \<or> result_met (checkContainer [sub] completed False))
               (CompressedContainer_Containers c) = None"
  shows "rendered_message ''Requires one of: '' '' or ''
           (map CompressedUnit_UnitCode
              (filter (\<lambda>u. \<not> isUnitCompleted u completed) (CompressedContainer_Units c)))
         @ concat (map (\<lambda>sub. result_messages (checkContainer [sub] completed False))
                     (CompressedContainer_Containers c)) \<noteq> []"
proof (cases "CompressedContainer_Units c = []")
  case False
  with nu have "filter (\<lambda>u. \<not> isUnitCompleted u completed) (CompressedContainer_Units c) \<noteq> []"
    by (cases "CompressedContainer_Units c") auto
  then show ?thesis by simp
next
  case True
  with ne obtain sub rest where cs: "CompressedContainer_Containers c = sub # rest"
    by (cases "CompressedContainer_Containers c") auto
  from nf cs have "result_error (checkContainer [sub] completed False) = None"
    and "\<not> result_met (checkContainer [sub] completed False)"
    by (auto simp: find_None_iff split: if_splits)
  then have "result_messages (checkContainer [sub] completed False) \<noteq> []"
    using checkContainer_met_iff [of "[sub]" completed False] by simp
  then show ?thesis by (simp add: cs)
qed

lemma checkOrLogic_prerequisite_eq:
  "checkOrLogic c completed False =
     (if CompressedContainer_Units c = [] \<and> CompressedContainer_Containers c = []
        then (True, [], None)
      else if \<exists>u \<in> set (CompressedContainer_Units c). isUnitCompleted u completed
        then (True, [], None)
      else
        (case find (\<lambda>sub. result_error (checkContainer [sub] completed False) \<noteq> None
                          \<or> result_met (checkContainer [sub] completed False))
                (CompressedContainer_Containers c) of
           Some sub \<Rightarrow>
             (case result_error (checkContainer [sub] completed False) of
                Some err \<Rightarrow> (False, [], Some (''error checking subcontainer: '' @ err))
              | None \<Rightarrow> (True, [], None))
         | None \<Rightarrow>
             (False,
              rendered_message ''Requires one of: '' '' or ''
                (map CompressedUnit_UnitCode
                   (filter (\<lambda>u. \<not> isUnitCompleted u completed) (CompressedContainer_Units c)))
              @ concat (map (\<lambda>sub. result_messages (checkContainer [sub] completed False))
                          (CompressedContainer_Containers c)),
              None)))"
  apply (subst checkOrLogic.simps)
  apply (simp only: Let_def singleton_rendered checkOrLogic_collect_eq checkOrLogic_anyMet_eq)
  using checkOrLogic_prerequisite_nonempty [of c completed]
  apply (auto simp: list_ex_iff split: option.split)
  done

lemma checkOrLogic_prohibition_eq:
  "checkOrLogic c completed True =
     (if CompressedContainer_Units c = [] \<and> CompressedContainer_Containers c = []
        then (True, [], None)
      else
        (case find (\<lambda>sub. result_error (checkContainer [sub] completed True) \<noteq> None)
                (CompressedContainer_Containers c) of
           Some sub \<Rightarrow>
             (False, [], Some (''error checking subcontainer: ''
                @ the (result_error (checkContainer [sub] completed True))))
         | None \<Rightarrow>
             (let ms = rendered_message ''Prohibited by one of: '' '' or ''
                         (map CompressedUnit_UnitCode
                            (filter (\<lambda>u. isUnitCompleted u completed) (CompressedContainer_Units c))
                          @ map (\<lambda>sub. ''sub-container'')
                              (filter (\<lambda>sub. result_met (checkContainer [sub] completed True))
                                 (CompressedContainer_Containers c)))
                       @ concat (map (\<lambda>sub. result_messages (checkContainer [sub] completed True))
                                   (CompressedContainer_Containers c))
              in (ms = [], ms, None))))"
  apply (subst checkOrLogic.simps)
  apply (simp only: Let_def singleton_rendered checkOrLogic_collect_eq checkOrLogic_tally_eq)
  apply (auto split: option.split)
  done


lemma find_error_cases:
  obtains (no_error) "find (\<lambda>sub. result_error (checkContainer [sub] completed p) \<noteq> None) cs = None"
      "\<forall>sub \<in> set cs. result_error (checkContainer [sub] completed p) = None"
  | (error) sub where
      "find (\<lambda>sub. result_error (checkContainer [sub] completed p) \<noteq> None) cs = Some sub"
      "sub \<in> set cs" "result_error (checkContainer [sub] completed p) \<noteq> None"
proof (cases "find (\<lambda>sub. result_error (checkContainer [sub] completed p) \<noteq> None) cs")
  case None
  then have "\<forall>sub \<in> set cs. result_error (checkContainer [sub] completed p) = None"
    unfolding find_None_iff by blast
  with None show ?thesis by (rule no_error)
next
  case (Some sub)
  then have "sub \<in> set cs" "result_error (checkContainer [sub] completed p) \<noteq> None"
    unfolding find_Some_iff by auto
  with Some show ?thesis by (rule error)
qed




lemma checkAndLogic_consistent:
  "checkAndLogic c completed p = (b, ms, None) \<Longrightarrow> b = (ms = [])"
  by (cases rule: find_error_cases [of completed p "CompressedContainer_Containers c"])
     (auto simp: checkAndLogic_eq [of c completed p] Let_def)

lemma checkOrLogic_consistent:
  assumes "checkOrLogic c completed p = (b, ms, None)"
  shows "b = (ms = [])"
proof (cases p)
  case True
  show ?thesis
  proof (cases rule: find_error_cases [of completed True "CompressedContainer_Containers c"])
    case no_error
    with assms True show ?thesis
      by (simp only: checkOrLogic_prohibition_eq [of c completed] Let_def option.case)
         (auto split: if_splits)
  next
    case (error sub)
    with assms True show ?thesis
      by (simp only: checkOrLogic_prohibition_eq [of c completed] option.case)
         (auto split: if_splits)
  qed
next
  case False
  let ?P = "\<lambda>sub. result_error (checkContainer [sub] completed False) \<noteq> None
                 \<or> result_met (checkContainer [sub] completed False)"
  show ?thesis
  proof (cases "find ?P (CompressedContainer_Containers c)")
    case None
    with assms False checkOrLogic_prerequisite_nonempty [of c completed] show ?thesis
      by (simp only: checkOrLogic_prerequisite_eq [of c completed] option.case)
         (auto split: if_splits)
  next
    case (Some sub)
    with assms False show ?thesis
      by (simp only: checkOrLogic_prerequisite_eq [of c completed] option.case)
         (auto split: if_splits option.splits)
  qed
qed

lemma checkContainerLogic_consistent:
  assumes "checkContainerLogic c completed p = (b, ms, None)"
  shows "b = (ms = [])"
  using assms checkAndLogic_consistent [of c completed p b ms]
    checkOrLogic_consistent [of c completed p b ms]
  by (auto simp: checkContainerLogic.simps [of c] split: if_splits)

lemma CheckRequisites_consistent:
  "CheckRequisites unitData completed = (b, ms, None) \<Longrightarrow> b = (ms = [])"
  by (auto simp: CheckRequisites_def split: if_splits sum.splits)

lemma find_first_satisfied:
  assumes "\<forall>x \<in> set pre. Q x" and "Q sub" and "P sub"
  shows "\<exists>x. find P (pre @ sub # post) = Some x \<and> Q x"
  using assms by (induction pre) auto

lemma find_first:
  assumes "\<forall>x \<in> set pre. \<not> P x" and "P sub"
  shows "find P (pre @ sub # post) = Some sub"
  using assms by (induction pre) auto

lemma checkAndLogic_error_result:
  "checkAndLogic c completed p = (b, ms, Some e) \<Longrightarrow> \<not> b \<and> ms = []"
  by (cases rule: find_error_cases [of completed p "CompressedContainer_Containers c"])
     (auto simp: checkAndLogic_eq [of c completed p] Let_def)

lemma checkOrLogic_error_result:
  assumes "checkOrLogic c completed p = (b, ms, Some e)"
  shows "\<not> b \<and> ms = []"
proof (cases p)
  case True
  show ?thesis
  proof (cases rule: find_error_cases [of completed True "CompressedContainer_Containers c"])
    case no_error
    with assms True show ?thesis
      by (simp only: checkOrLogic_prohibition_eq [of c completed] Let_def option.case)
         (auto split: if_splits)
  next
    case (error sub)
    with assms True show ?thesis
      by (simp only: checkOrLogic_prohibition_eq [of c completed] option.case)
         (auto split: if_splits)
  qed
next
  case False
  with assms show ?thesis
    by (simp only: checkOrLogic_prerequisite_eq [of c completed])
       (auto split: if_splits option.splits)
qed

lemma checkContainerLogic_error_result:
  assumes "checkContainerLogic c completed p = (b, ms, Some e)"
  shows "\<not> b \<and> ms = []"
  using assms checkAndLogic_error_result [of c completed p b ms e]
    checkOrLogic_error_result [of c completed p b ms e]
  by (auto simp: checkContainerLogic.simps [of c] split: if_splits)

text \<open>
  \<open>checkContainer\<close> on the one-element list of a sub-container returns what
  \<open>checkContainerLogic\<close> returns on the sub-container, with the error wrapped.
\<close>

lemma checkContainer_single:
  "checkContainer [sub] completed p =
     (result_met (checkContainerLogic sub completed p),
      result_messages (checkContainerLogic sub completed p),
      map_option (\<lambda>err. ''error checking container logic: '' @ err)
        (result_error (checkContainerLogic sub completed p)))"
proof -
  obtain b ms e where r: "checkContainerLogic sub completed p = (b, ms, e)"
    by (cases "checkContainerLogic sub completed p") auto
  show ?thesis
  proof (cases e)
    case None
    with r checkContainerLogic_consistent [of sub completed p b ms] show ?thesis
      by (auto simp: checkContainer.simps)
  next
    case (Some err)
    with r checkContainerLogic_error_result [of sub completed p b ms err] show ?thesis
      by (auto simp: checkContainer.simps)
  qed
qed

lemma checkContainer_single_parts:
  "result_met (checkContainer [sub] completed p) = result_met (checkContainerLogic sub completed p)"
  "result_messages (checkContainer [sub] completed p)
     = result_messages (checkContainerLogic sub completed p)"
  "result_error (checkContainer [sub] completed p) = None
     \<longleftrightarrow> result_error (checkContainerLogic sub completed p) = None"
  by (simp_all add: checkContainer_single)


section \<open>Claims about the evaluator\<close>



text \<open>
  C2, as stated, fails: the nested containers are evaluated in order and the first error
  ends the evaluation, so an \<open>OR\<close> container whose second nested container is satisfied
  on its own returns an error, not satisfied, when the first nested container is of an
  unknown relationship type.
\<close>

theorem C2_or_prerequisite_counterexample:
  "checkContainerLogic (CompressedContainer ''AND'' [] []) [] False = (True, [], None)
   \<and> checkContainerLogic
       (CompressedContainer ''OR'' []
          [CompressedContainer ''XOR'' [] [], CompressedContainer ''AND'' [] []])
       [] False
     = (False, [],
        Some ''error checking subcontainer: error checking container logic: unknown relationship type: XOR'')"
  by (simp add: evaluator_simps)

text \<open>
  C2, amended. An \<open>OR\<close> container evaluated in prerequisite mode returns satisfied with
  no message and no error as soon as a direct unit is completed, or a nested container,
  evaluated on its own by \<open>checkContainerLogic\<close>, is satisfied and no nested container
  before it returned an error. When no direct unit is completed and the first nested
  container that is satisfied or returns an error returns an error, the evaluation returns
  that error, wrapped, with no message. When no direct unit is completed and every nested
  container is unsatisfied without an error, the evaluation returns no error and the single
  message \<open>Requires one of: code1 or code2 or ...\<close> over the uncompleted direct units
  followed by the messages of the nested containers; it is then unsatisfied, unless the
  container has neither units nor nested containers.
\<close>

theorem C2_or_prerequisite:
  assumes "CompressedContainer_Relationship c = ''OR''"
  shows "((\<exists>u \<in> set (CompressedContainer_Units c).
             CompressedUnit_UnitCode u \<in> Unit_Code ` set completed) \<longrightarrow>
          checkContainerLogic c completed False = (True, [], None))
       \<and> (\<forall>pre sub post.
             CompressedContainer_Containers c = pre @ sub # post
             \<and> (\<forall>x \<in> set pre. result_error (checkContainerLogic x completed False) = None)
             \<and> result_met (checkContainerLogic sub completed False) \<longrightarrow>
             checkContainerLogic c completed False = (True, [], None))
       \<and> (\<forall>pre sub post err.
             (\<forall>u \<in> set (CompressedContainer_Units c).
                CompressedUnit_UnitCode u \<notin> Unit_Code ` set completed)
             \<and> CompressedContainer_Containers c = pre @ sub # post
             \<and> (\<forall>x \<in> set pre. \<not> result_met (checkContainerLogic x completed False)
                               \<and> result_error (checkContainerLogic x completed False) = None)
             \<and> result_error (checkContainerLogic sub completed False) = Some err \<longrightarrow>
             checkContainerLogic c completed False =
               (False, [],
                Some (''error checking subcontainer: ''
                      @ ''error checking container logic: '' @ err)))
       \<and> ((\<forall>u \<in> set (CompressedContainer_Units c).
              CompressedUnit_UnitCode u \<notin> Unit_Code ` set completed)
           \<and> (\<forall>sub \<in> set (CompressedContainer_Containers c).
                 \<not> result_met (checkContainerLogic sub completed False)
                 \<and> result_error (checkContainerLogic sub completed False) = None) \<longrightarrow>
           checkContainerLogic c completed False =
             (CompressedContainer_Units c = [] \<and> CompressedContainer_Containers c = [],
              rendered_message ''Requires one of: '' '' or ''
                (map CompressedUnit_UnitCode
                   (filter (\<lambda>u. CompressedUnit_UnitCode u \<notin> Unit_Code ` set completed)
                      (CompressedContainer_Units c)))
              @ concat (map (\<lambda>sub. result_messages (checkContainerLogic sub completed False))
                          (CompressedContainer_Containers c)),
              None))"
proof -
  let ?P = "\<lambda>sub. result_error (checkContainer [sub] completed False) \<noteq> None
                 \<or> result_met (checkContainer [sub] completed False)"
  have eq: "checkContainerLogic c completed False = checkOrLogic c completed False"
    using assms by (simp add: checkContainerLogic.simps)
  have unit: "checkOrLogic c completed False = (True, [], None)"
    if "\<exists>u \<in> set (CompressedContainer_Units c).
          CompressedUnit_UnitCode u \<in> Unit_Code ` set completed"
    using that by (auto simp: checkOrLogic_prerequisite_eq isUnitCompleted_iff)
  have nested: "checkOrLogic c completed False = (True, [], None)"
    if cs: "CompressedContainer_Containers c = pre @ sub # post"
      and pre: "\<forall>x \<in> set pre. result_error (checkContainerLogic x completed False) = None"
      and met: "result_met (checkContainerLogic sub completed False)"
    for pre sub post
  proof -
    from met have m: "result_met (checkContainer [sub] completed False)"
      by (simp add: checkContainer_single_parts(1))
    then have "result_error (checkContainer [sub] completed False) = None"
      using checkContainer_met_iff [of "[sub]" completed False] by simp
    note this m
    moreover from pre
    have "\<forall>x \<in> set pre. result_error (checkContainer [x] completed False) = None"
      by (simp add: checkContainer_single_parts)
    ultimately obtain x where "find ?P (pre @ sub # post) = Some x"
      and "result_error (checkContainer [x] completed False) = None"
      using find_first_satisfied
        [of pre "\<lambda>x. result_error (checkContainer [x] completed False) = None" sub ?P post]
      by blast
    then show ?thesis
      by (simp only: checkOrLogic_prerequisite_eq [of c completed] cs option.case) simp
  qed
  have failed: "checkOrLogic c completed False =
               (False, [],
                Some (''error checking subcontainer: ''
                      @ ''error checking container logic: '' @ err))"
    if nu: "\<forall>u \<in> set (CompressedContainer_Units c).
                CompressedUnit_UnitCode u \<notin> Unit_Code ` set completed"
      and cs: "CompressedContainer_Containers c = pre @ sub # post"
      and pre: "\<forall>x \<in> set pre. \<not> result_met (checkContainerLogic x completed False)
                               \<and> result_error (checkContainerLogic x completed False) = None"
      and err: "result_error (checkContainerLogic sub completed False) = Some err"
    for pre sub post err
  proof -
    from pre have "\<forall>x \<in> set pre. \<not> ?P x"
      by (simp add: checkContainer_single_parts)
    moreover from err have e: "result_error (checkContainer [sub] completed False)
        = Some (''error checking container logic: '' @ err)"
      by (simp add: checkContainer_single)
    then have "?P sub" by simp
    ultimately have "find ?P (pre @ sub # post) = Some sub"
      by (rule find_first)
    with nu e show ?thesis
      by (simp only: checkOrLogic_prerequisite_eq [of c completed] cs option.case)
         (auto simp: isUnitCompleted_iff)
  qed
  have none: "checkOrLogic c completed False =
             (CompressedContainer_Units c = [] \<and> CompressedContainer_Containers c = [],
              rendered_message ''Requires one of: '' '' or ''
                (map CompressedUnit_UnitCode
                   (filter (\<lambda>u. CompressedUnit_UnitCode u \<notin> Unit_Code ` set completed)
                      (CompressedContainer_Units c)))
              @ concat (map (\<lambda>sub. result_messages (checkContainerLogic sub completed False))
                          (CompressedContainer_Containers c)),
              None)"
    if nu: "\<forall>u \<in> set (CompressedContainer_Units c).
                 CompressedUnit_UnitCode u \<notin> Unit_Code ` set completed"
      and ns: "\<forall>sub \<in> set (CompressedContainer_Containers c).
                 \<not> result_met (checkContainerLogic sub completed False)
                 \<and> result_error (checkContainerLogic sub completed False) = None"
  proof -
    from ns have "find ?P (CompressedContainer_Containers c) = None"
      by (auto simp: find_None_iff checkContainer_single_parts)
    with nu show ?thesis
      by (simp only: checkOrLogic_prerequisite_eq [of c completed] option.case)
         (auto simp: isUnitCompleted_iff checkContainer_single_parts)
  qed
  show ?thesis
    unfolding eq using unit nested failed none by blast
qed

text \<open>
  Scenario 3 of the specification, the same container with one unit completed, a container
  whose nested container is satisfied, the same with the nested container unsatisfied, and
  a container whose nested container is of an unknown relationship type.
\<close>

theorem C2_or_prerequisite_witness:
  "CompressedContainer_Relationship
     (CompressedContainer ''OR''
        [compressedUnit ''FIT1006'' ''1006'', compressedUnit ''ETC1010'' ''1010'',
         compressedUnit ''STA1010'' ''1010''] []) = ''OR''
   \<and> checkContainerLogic
       (CompressedContainer ''OR''
          [compressedUnit ''FIT1006'' ''1006'', compressedUnit ''ETC1010'' ''1010'',
           compressedUnit ''STA1010'' ''1010''] [])
       [] False
     = (False, [''Requires one of: FIT1006 or ETC1010 or STA1010''], None)
   \<and> checkContainerLogic
       (CompressedContainer ''OR''
          [compressedUnit ''FIT1006'' ''1006'', compressedUnit ''ETC1010'' ''1010'',
           compressedUnit ''STA1010'' ''1010''] [])
       [completedUnit ''ETC1010''] False
     = (True, [], None)
   \<and> checkContainerLogic
       (CompressedContainer ''OR'' [compressedUnit ''FIT1006'' ''1006'']
          [CompressedContainer ''AND'' [compressedUnit ''FIT1008'' ''1008''] []])
       [completedUnit ''FIT1008''] False
     = (True, [], None)
   \<and> checkContainerLogic
       (CompressedContainer ''OR'' [compressedUnit ''FIT1006'' ''1006'']
          [CompressedContainer ''AND'' [compressedUnit ''FIT1008'' ''1008''] []])
       [] False
     = (False, [''Requires one of: FIT1006'', ''Requires: FIT1008''], None)
   \<and> checkContainerLogic
       (CompressedContainer ''OR'' [compressedUnit ''FIT1006'' ''1006'']
          [CompressedContainer ''NOT'' [] []])
       [] False
     = (False, [],
        Some ''error checking subcontainer: error checking container logic: unknown relationship type: NOT'')"
  using
    C2_or_prerequisite
      [of "CompressedContainer ''OR''
            [compressedUnit ''FIT1006'' ''1006'', compressedUnit ''ETC1010'' ''1010'',
             compressedUnit ''STA1010'' ''1010''] []" "[]"]
    C2_or_prerequisite
      [of "CompressedContainer ''OR''
            [compressedUnit ''FIT1006'' ''1006'', compressedUnit ''ETC1010'' ''1010'',
             compressedUnit ''STA1010'' ''1010''] []" "[completedUnit ''ETC1010'']"]
    C2_or_prerequisite
      [of "CompressedContainer ''OR'' [compressedUnit ''FIT1006'' ''1006'']
            [CompressedContainer ''AND'' [compressedUnit ''FIT1008'' ''1008''] []]"
          "[completedUnit ''FIT1008'']"]
    C2_or_prerequisite
      [of "CompressedContainer ''OR'' [compressedUnit ''FIT1006'' ''1006'']
            [CompressedContainer ''AND'' [compressedUnit ''FIT1008'' ''1008''] []]" "[]"]
    C2_or_prerequisite
      [of "CompressedContainer ''OR'' [compressedUnit ''FIT1006'' ''1006'']
            [CompressedContainer ''NOT'' [] []]" "[]"]
  by (simp add: example_defs evaluator_simps)






text \<open>
  C8, as stated, fails: a container with no units and no containers whose Relationship is
  neither \<open>AND\<close> nor \<open>OR\<close> is an error in both modes.
\<close>

theorem C8_empty_container_counterexample:
  "CompressedContainer_Units (CompressedContainer ''XOR'' [] []) = []
   \<and> CompressedContainer_Containers (CompressedContainer ''XOR'' [] []) = []
   \<and> checkContainerLogic (CompressedContainer ''XOR'' [] []) [] False
       = (False, [], Some ''unknown relationship type: XOR'')
   \<and> checkContainerLogic (CompressedContainer ''XOR'' [] []) [] True
       = (False, [], Some ''unknown relationship type: XOR'')"
  by (simp add: evaluator_simps)

text \<open>
  C8, amended. A container whose Relationship is \<open>AND\<close> or \<open>OR\<close> and whose Units and
  Containers are both empty evaluates to satisfied with no message and no error, for every
  completed-unit list and in both modes. A container with any other Relationship
  evaluates to the error \<open>unknown relationship type\<close>, empty or not.
\<close>

theorem C8_empty_container:
  "((CompressedContainer_Relationship c = ''AND'' \<or> CompressedContainer_Relationship c = ''OR'')
      \<and> CompressedContainer_Units c = [] \<and> CompressedContainer_Containers c = [] \<longrightarrow>
    checkContainerLogic c completed isProhibition = (True, [], None))
   \<and> (CompressedContainer_Relationship c \<noteq> ''AND''
      \<and> CompressedContainer_Relationship c \<noteq> ''OR'' \<longrightarrow>
    checkContainerLogic c completed isProhibition =
      (False, [], Some (''unknown relationship type: '' @ CompressedContainer_Relationship c)))"
  by (auto simp: evaluator_simps)

theorem C8_empty_container_witness:
  "CompressedContainer_Relationship (CompressedContainer ''OR'' [] []) = ''OR''
   \<and> CompressedContainer_Units (CompressedContainer ''OR'' [] []) = []
   \<and> CompressedContainer_Containers (CompressedContainer ''OR'' [] []) = []
   \<and> checkContainerLogic (CompressedContainer ''OR'' [] []) [completedUnit ''FIT1008''] True
       = (True, [], None)
   \<and> checkContainerLogic (CompressedContainer ''AND'' [] []) [] False = (True, [], None)
   \<and> checkContainerLogic (CompressedContainer ''and'' [] []) [] False
       = (False, [], Some ''unknown relationship type: and'')"
  using
    C8_empty_container [of "CompressedContainer ''OR'' [] []" "[completedUnit ''FIT1008'']" True]
    C8_empty_container [of "CompressedContainer ''AND'' [] []" "[]" False]
    C8_empty_container [of "CompressedContainer ''and'' [] []" "[]" False]
  by simp

text \<open>
  C10. When \<open>CheckRequisites\<close> returns without an error its result is either true with no
  message or false with at least one message, and so are the results of \<open>checkContainer\<close>
  and of \<open>checkContainerLogic\<close>: only a message makes a result false, and no container is
  judged unmet without one.
\<close>

theorem C10_result_consistent:
  "(CheckRequisites unitData completed = (b, ms, None) \<longrightarrow>
      (b \<and> ms = []) \<or> (\<not> b \<and> ms \<noteq> []))
   \<and> (checkContainer containers completed isProhibition = (b', ms', None) \<longrightarrow>
      (b' \<and> ms' = []) \<or> (\<not> b' \<and> ms' \<noteq> []))
   \<and> (checkContainerLogic container completed isProhibition = (b'', ms'', None) \<longrightarrow>
      (b'' \<and> ms'' = []) \<or> (\<not> b'' \<and> ms'' \<noteq> []))"
  using CheckRequisites_consistent [of unitData completed b ms]
    checkContainer_consistent [of containers completed isProhibition b' ms' None]
    checkContainerLogic_consistent [of container completed isProhibition b'' ms'']
  by auto

theorem C10_result_consistent_witness:
  "CheckRequisites
     \<lparr>UnitData_Requisites =
        [\<lparr>CompressedRequisite_RequisiteType = ''Prerequisite'',
          CompressedRequisite_Containers =
            [CompressedContainer ''AND'' [compressedUnit ''FIT1045'' ''1045''] []]\<rparr>]\<rparr>
     [] = (False, [''Requires: FIT1045''], None)
   \<and> checkContainer [CompressedContainer ''AND'' [] []] [] False = (True, [], None)
   \<and> checkContainerLogic (CompressedContainer ''OR'' [compressedUnit ''FIT1045'' ''1045''] [])
       [] False = (False, [''Requires one of: FIT1045''], None)"
  using C10_result_consistent
    [of "\<lparr>UnitData_Requisites =
          [\<lparr>CompressedRequisite_RequisiteType = ''Prerequisite'',
            CompressedRequisite_Containers =
              [CompressedContainer ''AND'' [compressedUnit ''FIT1045'' ''1045''] []]\<rparr>]\<rparr>"
        "[]" False "[''Requires: FIT1045'']"
        "[CompressedContainer ''AND'' [] []]" False True "[]"
        "CompressedContainer ''OR'' [compressedUnit ''FIT1045'' ''1045''] []"
        False "[''Requires one of: FIT1045'']"]
  by (simp add: example_defs evaluator_simps CheckRequisites_def)

section \<open>Lemmas about the builder\<close>

lemma ParseCurriculum_containers_fields:
  assumes "ParseCurriculum_containers part partMap = Return part'"
  shows "Part_CreditPointsRequired part' = Part_CreditPointsRequired part"
    and "Part_AcademicItems part' = Part_AcademicItems part"
  using assms
  by (auto simp: ParseCurriculum_containers_def Let_def
      split: option.splits outcome.splits list.splits if_splits)

lemma ParseCurriculum_items_fields:
  "Part_CreditPointsRequired (ParseCurriculum_items part partMap) = Part_CreditPointsRequired part"
  "Part_Containers (ParseCurriculum_items part partMap) = Part_Containers part"
  by (auto simp: ParseCurriculum_items_def Let_def split: option.splits list.splits)

lemma ParseCurriculum_part_CreditPointsRequired:
  assumes "ParseCurriculum_part totalCreditPoints partMap = Return part"
  shows "Part_CreditPointsRequired part =
     (if StringToInt (getString partMap ''credit_points'') = totalCreditPoints then 0
      else StringToInt (getString partMap ''credit_points''))"
  using assms
  by (auto simp: ParseCurriculum_part_def Let_def ParseCurriculum_items_fields
      split: option.splits json.splits outcome.splits
      dest!: ParseCurriculum_containers_fields(1))

lemma ParseCurriculum_loop_parts:
  "ParseCurriculum_loop totalCreditPoints partsData parts = Return result \<Longrightarrow>
     \<exists>new. result = parts @ new
       \<and> list_all2 (\<lambda>partMap part. ParseCurriculum_part totalCreditPoints partMap = Return part)
           (objectEntries partsData) new"
proof (induction partsData arbitrary: parts)
  case Nil
  then show ?case by (simp add: objectEntries_def)
next
  case (Cons partInterface rest)
  show ?case
  proof (cases partInterface)
    case (JObject partMap)
    with Cons.prems obtain part where
      p: "ParseCurriculum_part totalCreditPoints partMap = Return part"
      and r: "ParseCurriculum_loop totalCreditPoints rest (parts @ [part]) = Return result"
      by (auto split: outcome.splits)
    from Cons.IH [OF r] obtain new where "result = (parts @ [part]) @ new"
      and "list_all2 (\<lambda>partMap part. ParseCurriculum_part totalCreditPoints partMap = Return part)
             (objectEntries rest) new"
      by blast
    with p JObject show ?thesis
      by (intro exI [of _ "part # new"]) (simp add: objectEntries_def)
  qed (use Cons in \<open>auto simp: objectEntries_def\<close>)
qed

lemma ParseCurriculum_parts:
  assumes "ParseCurriculum rawJSON = Return (curriculum, None)"
  shows "list_all2
           (\<lambda>partMap part.
              ParseCurriculum_part (Curriculum_TotalCreditPoints curriculum) partMap = Return part)
           (partEntries rawJSON) (Curriculum_Parts curriculum)"
  using assms
  by (auto simp: ParseCurriculum_def partEntries_def curriculumStructure_def Let_def
      split: option.splits json.splits outcome.splits dest!: ParseCurriculum_loop_parts)

lemma objectEntries_simps:
  "objectEntries [] = []"
  "objectEntries (JObject m # rest) = m # objectEntries rest"
  "objectEntries (JNull # rest) = objectEntries rest"
  "objectEntries (JBool b # rest) = objectEntries rest"
  "objectEntries (JNumber n # rest) = objectEntries rest"
  "objectEntries (JString s # rest) = objectEntries rest"
  "objectEntries (JArray a # rest) = objectEntries rest"
  by (simp_all add: objectEntries_def)

lemma parseContainers_nestedRaw_eq:
  "parseContainers_nestedRaw containerMap =
     (case map_of containerMap ''container'' of
        Some nestedContainersRaw \<Rightarrow>
          if nestedContainersRaw \<noteq> JNull then Some nestedContainersRaw else None
      | None \<Rightarrow> None)"
  by (auto simp: parseContainers_nestedRaw_def parseItems_def parseItems_connector_def Let_def
      split: option.splits json.splits list.splits)

lemma nestedEntries_nestedRaw:
  "nestedEntries containerMap =
     (case parseContainers_nestedRaw containerMap of
        Some (JArray entries) \<Rightarrow> objectEntries entries
      | _ \<Rightarrow> [])"
  by (auto simp: parseContainers_nestedRaw_eq nestedEntries_def split: option.splits json.splits)

lemma parseContainers_entry_Return:
  assumes "parseContainers_entry containerMap nested = Return (container, parentConnector)"
  shows "parentConnector = parentConnectorValue containerMap"
    and "Container_CreditPointsRequired container
           = StringToInt (getString containerMap ''credit_points'')"
    and "Container_Containers container
           = (case nested of Some (nestedContainers, relationship, err) \<Rightarrow> nestedContainers
              | None \<Rightarrow> [])"
    and "Container_Connector container =
           (case Container_AcademicItems container of
              first # others \<Rightarrow>
                if AcademicItem_CreditPoints first = Container_CreditPointsRequired container
                then ''OR''
                else (case Container_Containers container of
                        first # others \<Rightarrow>
                          if Container_CreditPointsRequired first
                               = Container_CreditPointsRequired container
                          then ''OR''
                          else (case nested of
                                  Some (nestedContainers, relationship, err) \<Rightarrow>
                                    if relationship \<noteq> [] then relationship else ''AND''
                                | None \<Rightarrow> ''AND'')
                      | [] \<Rightarrow>
                          (case nested of
                             Some (nestedContainers, relationship, err) \<Rightarrow>
                               if relationship \<noteq> [] then relationship else ''AND''
                           | None \<Rightarrow> ''AND''))
            | [] \<Rightarrow>
                (case Container_Containers container of
                   first # others \<Rightarrow>
                     if Container_CreditPointsRequired first
                          = Container_CreditPointsRequired container
                     then ''OR''
                     else (case nested of
                             Some (nestedContainers, relationship, err) \<Rightarrow>
                               if relationship \<noteq> [] then relationship else ''AND''
                           | None \<Rightarrow> ''AND'')
                 | [] \<Rightarrow>
                     (case nested of
                        Some (nestedContainers, relationship, err) \<Rightarrow>
                          if relationship \<noteq> [] then relationship else ''AND''
                      | None \<Rightarrow> ''AND'')))"
proof -
  from assms obtain conn where c: "map_of containerMap ''parent_connector'' = Some (JObject conn)"
    by (auto simp: parseContainers_entry_def Let_def split: option.splits json.splits)
  from assms c obtain v where v: "map_of conn ''value'' = Some (JString v)"
    by (auto simp: parseContainers_entry_def Let_def split: option.splits json.splits)
  note e = assms [unfolded parseContainers_entry_def Let_def, simplified c v option.case json.case,
      simplified]
  from e c v show "parentConnector = parentConnectorValue containerMap"
    by (simp add: parentConnectorValue_def getString_def)
  from e show "Container_CreditPointsRequired container
           = StringToInt (getString containerMap ''credit_points'')"
    by auto
  from e show "Container_Containers container
           = (case nested of Some (nestedContainers, relationship, err) \<Rightarrow> nestedContainers
              | None \<Rightarrow> [])"
    by auto
  from e show "Container_Connector container =
           (case Container_AcademicItems container of
              first # others \<Rightarrow>
                if AcademicItem_CreditPoints first = Container_CreditPointsRequired container
                then ''OR''
                else (case Container_Containers container of
                        first # others \<Rightarrow>
                          if Container_CreditPointsRequired first
                               = Container_CreditPointsRequired container
                          then ''OR''
                          else (case nested of
                                  Some (nestedContainers, relationship, err) \<Rightarrow>
                                    if relationship \<noteq> [] then relationship else ''AND''
                                | None \<Rightarrow> ''AND'')
                      | [] \<Rightarrow>
                          (case nested of
                             Some (nestedContainers, relationship, err) \<Rightarrow>
                               if relationship \<noteq> [] then relationship else ''AND''
                           | None \<Rightarrow> ''AND''))
            | [] \<Rightarrow>
                (case Container_Containers container of
                   first # others \<Rightarrow>
                     if Container_CreditPointsRequired first
                          = Container_CreditPointsRequired container
                     then ''OR''
                     else (case nested of
                             Some (nestedContainers, relationship, err) \<Rightarrow>
                               if relationship \<noteq> [] then relationship else ''AND''
                           | None \<Rightarrow> ''AND'')
                 | [] \<Rightarrow>
                     (case nested of
                        Some (nestedContainers, relationship, err) \<Rightarrow>
                          if relationship \<noteq> [] then relationship else ''AND''
                      | None \<Rightarrow> ''AND'')))"
    by (auto split: list.splits)
qed


lemma parseContainers_entry_follows:
  assumes "parseContainers_entry containerMap nested = Return (container, parentConnector)"
    and "nested = None \<Longrightarrow> nestedEntries containerMap = []"
    and "\<And>nestedContainers relationship err.
           nested = Some (nestedContainers, relationship, err) \<Longrightarrow>
             list_all2 connector_follows (nestedEntries containerMap) nestedContainers
             \<and> relationship = handedUpConnector (nestedEntries containerMap)"
  shows "connector_follows containerMap container
         \<and> parentConnector = parentConnectorValue containerMap"
proof -
  note r = parseContainers_entry_Return [OF assms(1)]
  obtain title description creditPoints containers academicItems connector where
    c: "container = Container title description creditPoints containers academicItems connector"
    by (cases container) auto
  have n: "list_all2 connector_follows (nestedEntries containerMap) containers
           \<and> (case nested of
                 Some (nestedContainers, relationship, err) \<Rightarrow>
                   if relationship \<noteq> [] then relationship else ''AND''
               | None \<Rightarrow> ''AND'') = inheritedConnector containerMap"
  proof (cases nested)
    case None
    with assms(2) r(3) [unfolded c Container.sel] show ?thesis
      by (simp add: inheritedConnector_def handedUpConnector_def)
  next
    case (Some x)
    obtain nestedContainers relationship err where x: "x = (nestedContainers, relationship, err)"
      by (cases x) auto
    from assms(3) [of nestedContainers relationship err] Some x r(3) [unfolded c Container.sel]
    show ?thesis
      by (simp add: inheritedConnector_def)
  qed
  from n have i: "containers = [] \<Longrightarrow> inheritedConnector containerMap = ''AND''"
    by (simp add: inheritedConnector_def handedUpConnector_def)
  from r(2) [unfolded c Container.sel] r(4) [unfolded c Container.sel] n i
  have "connector_follows containerMap container"
    unfolding c by (auto simp add: spec_connector_def firstChild_def split: list.splits)
  with r(1) show ?thesis by simp
qed

lemma parseContainers_follows:
  shows "parseContainers containerData = Return (result, relationship, err) \<Longrightarrow>
           list_all2 connector_follows
             (case containerData of JArray entries \<Rightarrow> objectEntries entries | _ \<Rightarrow> []) result
           \<and> relationship =
               handedUpConnector
                 (case containerData of JArray entries \<Rightarrow> objectEntries entries | _ \<Rightarrow> [])"
    and "parseContainers_loop containerSlice containers parentConnector
           = Return (result, relationship, err) \<Longrightarrow>
         \<exists>new. result = containers @ new
           \<and> list_all2 connector_follows (objectEntries containerSlice) new
           \<and> relationship =
               (if objectEntries containerSlice = [] then parentConnector
                else parentConnectorValue (last (objectEntries containerSlice)))"
proof (induction containerData and containerSlice containers parentConnector
    arbitrary: result relationship err and result relationship err
    rule: parseContainers_parseContainers_loop.induct)
  case (1 containerData)
  show ?case
  proof (cases containerData)
    case (JArray containerSlice)
    with "1.prems"
    have "parseContainers_loop containerSlice [] [] = Return (result, relationship, err)"
      by (simp add: parseContainers.simps)
    from "1.IH" [OF JArray this] JArray show ?thesis
      by (auto simp: handedUpConnector_def)
  qed (use "1.prems" in \<open>auto simp: parseContainers.simps handedUpConnector_def\<close>)
next
  case (2 containers parentConnector)
  then show ?case by (simp add: objectEntries_simps)
next
  case (3 containerInterface rest containers parentConnector)
  show ?case
  proof (cases containerInterface)
    case (JObject containerMap)
    from "3.prems"(1) JObject obtain nested container parentConnector' where
      n: "(case parseContainers_nestedRaw containerMap of
             Some nestedContainersRaw \<Rightarrow>
               (case parseContainers nestedContainersRaw of
                  Panic \<Rightarrow> Panic
                | Return nested \<Rightarrow> Return (Some nested))
           | None \<Rightarrow> Return None) = Return nested"
      and e: "parseContainers_entry containerMap nested = Return (container, parentConnector')"
      and l: "parseContainers_loop rest (containers @ [container]) parentConnector'
                = Return (result, relationship, err)"
      by (auto split: outcome.splits)
    have f: "connector_follows containerMap container
             \<and> parentConnector' = parentConnectorValue containerMap"
    proof (rule parseContainers_entry_follows [OF e])
      assume "nested = None"
      with n have "parseContainers_nestedRaw containerMap = None"
        by (auto split: option.splits outcome.splits)
      then show "nestedEntries containerMap = []"
        by (simp add: nestedEntries_nestedRaw)
    next
      fix nestedContainers relationship' err'
      assume s: "nested = Some (nestedContainers, relationship', err')"
      with n obtain raw where raw: "parseContainers_nestedRaw containerMap = Some raw"
        and p: "parseContainers raw = Return (nestedContainers, relationship', err')"
        by (auto split: option.splits outcome.splits)
      from raw have "nestedEntries containerMap
          = (case raw of JArray entries \<Rightarrow> objectEntries entries | _ \<Rightarrow> [])"
        by (simp add: nestedEntries_nestedRaw)
      with "3.IH"(6) [OF JObject raw p]
      show "list_all2 connector_follows (nestedEntries containerMap) nestedContainers
             \<and> relationship' = handedUpConnector (nestedEntries containerMap)"
        by simp
    qed
    from "3.IH"(7) [OF JObject n e refl l] obtain new where
      "result = (containers @ [container]) @ new"
      and "list_all2 connector_follows (objectEntries rest) new"
      and "relationship =
             (if objectEntries rest = [] then parentConnector'
              else parentConnectorValue (last (objectEntries rest)))"
      by blast
    with f JObject show ?thesis
      by (intro exI [of _ "container # new"]) (simp add: objectEntries_simps)
  next
    case JNull
    with "3.prems"(1)
    have "parseContainers_loop rest containers parentConnector = Return (result, relationship, err)"
      by simp
    from "3.IH"(1) [OF JNull this] show ?thesis unfolding JNull objectEntries_simps .
  next
    case (JBool x)
    with "3.prems"(1)
    have "parseContainers_loop rest containers parentConnector = Return (result, relationship, err)"
      by simp
    from "3.IH"(2) [OF JBool this] show ?thesis unfolding JBool objectEntries_simps .
  next
    case (JNumber x)
    with "3.prems"(1)
    have "parseContainers_loop rest containers parentConnector = Return (result, relationship, err)"
      by simp
    from "3.IH"(3) [OF JNumber this] show ?thesis unfolding JNumber objectEntries_simps .
  next
    case (JString x)
    with "3.prems"(1)
    have "parseContainers_loop rest containers parentConnector = Return (result, relationship, err)"
      by simp
    from "3.IH"(4) [OF JString this] show ?thesis unfolding JString objectEntries_simps .
  next
    case (JArray x)
    with "3.prems"(1)
    have "parseContainers_loop rest containers parentConnector = Return (result, relationship, err)"
      by simp
    from "3.IH"(5) [OF JArray this] show ?thesis unfolding JArray objectEntries_simps .
  qed
qed

lemma ParseCurriculum_containers_follows:
  assumes "ParseCurriculum_containers part partMap = Return part'"
    and "Part_Containers part = []" and "Part_Connector part = ''AND''"
  shows "list_all2 connector_follows (nestedEntries partMap) (Part_Containers part')
      \<and> Part_Connector part' =
           (case Part_Containers part' of
              first # others \<Rightarrow>
                if Container_CreditPointsRequired first = Part_CreditPointsRequired part
                then ''OR'' else ''AND''
            | [] \<Rightarrow> ''AND'')"
proof (cases "map_of partMap ''container''")
  case None
  with assms show ?thesis
    by (simp add: ParseCurriculum_containers_def nestedEntries_def)
next
  case (Some containersRaw)
  with assms(1) obtain containers relationship err where
    r: "parseContainers containersRaw = Return (containers, relationship, err)"
    by (auto simp: ParseCurriculum_containers_def split: outcome.splits)
  from parseContainers_follows(1) [OF r] Some
  have "list_all2 connector_follows (nestedEntries partMap) containers"
    by (simp add: nestedEntries_def split: json.splits)
  with assms Some r show ?thesis
    by (auto simp: ParseCurriculum_containers_def Let_def split: list.splits if_splits)
qed

lemma ParseCurriculum_items_connector:
  assumes "Part_AcademicItems part = []"
  shows "Part_Connector (ParseCurriculum_items part partMap) =
           (case Part_Containers part of
              [] \<Rightarrow>
                (case Part_AcademicItems (ParseCurriculum_items part partMap) of
                   first # others \<Rightarrow>
                     if AcademicItem_CreditPoints first = Part_CreditPointsRequired part
                     then ''OR'' else Part_Connector part
                 | [] \<Rightarrow> Part_Connector part)
            | first # others \<Rightarrow> Part_Connector part)"
  using assms
  by (auto simp: ParseCurriculum_items_def Let_def split: option.splits list.splits)

lemma ParseCurriculum_part_follows:
  assumes "ParseCurriculum_part totalCreditPoints partMap = Return part"
  shows "Part_Connector part =
           spec_connector (StringToInt (getString partMap ''credit_points''))
             (firstChild (Part_Containers part) (Part_AcademicItems part))
         \<and> list_all2 connector_follows (nestedEntries partMap) (Part_Containers part)"
proof -
  let ?cp = "StringToInt (getString partMap ''credit_points'')"
  from assms obtain orderStr part1 where
    p1: "ParseCurriculum_containers
           \<lparr>Part_Title = getString partMap ''title'',
            Part_Description = RemoveHTMLTags (getString partMap ''description''),
            Part_CreditPointsRequired = ?cp, Part_Containers = [], Part_AcademicItems = [],
            Part_Order = StringToInt orderStr, Part_Connector = ''AND''\<rparr> partMap
         = Return part1"
    and p: "part = (if Part_CreditPointsRequired (ParseCurriculum_items part1 partMap)
                        = totalCreditPoints
                    then (ParseCurriculum_items part1 partMap)\<lparr>Part_CreditPointsRequired := 0\<rparr>
                    else ParseCurriculum_items part1 partMap)"
    unfolding ParseCurriculum_part_def Let_def
    by (auto split: option.splits json.splits outcome.splits)
  note c = ParseCurriculum_containers_follows [OF p1, simplified]
  note f = ParseCurriculum_containers_fields [OF p1, simplified]
  have i: "Part_Connector (ParseCurriculum_items part1 partMap) =
             spec_connector ?cp
               (firstChild (Part_Containers part1)
                  (Part_AcademicItems (ParseCurriculum_items part1 partMap)))"
    unfolding ParseCurriculum_items_connector [OF f(2)] c [THEN conjunct2] f(1)
    by (simp add: spec_connector_def firstChild_def split: list.splits)
  from i c [THEN conjunct1] show ?thesis
    by (simp add: p ParseCurriculum_items_fields)
qed

lemma StringToInt_no_digit:
  assumes "\<forall>ch \<in> set s. \<not> is_digit ch"
  shows "StringToInt s = 0"
proof -
  from assms have d: "dropWhile (\<lambda>ch. \<not> is_digit ch) s = []"
    by simp
  show ?thesis
    unfolding StringToInt_def d by simp
qed

section \<open>Claims about the curriculum structure builder\<close>

text \<open>
  C5, as stated, fails on containers: a container takes the parent connector declared by
  its nested entries, so \<open>Core\<close>, which requires 12 credit points and whose first
  sub-container requires 6, comes out with the connector \<open>OR\<close>. It also fails on the
  required credit points a part is returned with: a part that declares the total credit
  points of the curriculum is returned with 0 required credit points, and keeps the
  connector \<open>OR\<close> inferred from the 12 credit points it declares.
\<close>

theorem C5_connector_inference_counterexample:
  "ParseCurriculum
     (curriculumDocument ''48''
        [partEntry ''Part A'' ''24''
           [containerEntry ''Core'' ''12'' ''AND'' [containerEntry ''Inner'' ''6'' ''OR'' [] []] []]
           []])
   = Return
       (\<lparr>Curriculum_TotalCreditPoints = 48,
         Curriculum_Parts =
           [\<lparr>Part_Title = ''Part A'', Part_Description = [], Part_CreditPointsRequired = 24,
              Part_Containers =
                [Container ''Core'' [] 12 [Container ''Inner'' [] 6 [] [] ''AND''] [] ''OR''],
              Part_AcademicItems = [], Part_Order = 1, Part_Connector = ''AND''\<rparr>]\<rparr>,
        None)
   \<and> Container_Connector
         (Container ''Core'' [] 12 [Container ''Inner'' [] 6 [] [] ''AND''] [] ''OR'')
       \<noteq> spec_connector
           (Container_CreditPointsRequired
              (Container ''Core'' [] 12 [Container ''Inner'' [] 6 [] [] ''AND''] [] ''OR''))
           (firstChild
              (Container_Containers
                 (Container ''Core'' [] 12 [Container ''Inner'' [] 6 [] [] ''AND''] [] ''OR''))
              (Container_AcademicItems
                 (Container ''Core'' [] 12 [Container ''Inner'' [] 6 [] [] ''AND''] [] ''OR'')))
   \<and> ParseCurriculum
       (curriculumDocument ''12''
          [partEntry ''Part A'' ''12'' [containerEntry ''Core'' ''12'' ''AND'' [] []] []])
     = Return
         (\<lparr>Curriculum_TotalCreditPoints = 12,
           Curriculum_Parts =
             [\<lparr>Part_Title = ''Part A'', Part_Description = [], Part_CreditPointsRequired = 0,
                Part_Containers = [Container ''Core'' [] 12 [] [] ''AND''],
                Part_AcademicItems = [], Part_Order = 1, Part_Connector = ''OR''\<rparr>]\<rparr>,
          None)
   \<and> ''OR''
       \<noteq> spec_connector
           (Part_CreditPointsRequired
              \<lparr>Part_Title = ''Part A'', Part_Description = [], Part_CreditPointsRequired = 0,
                Part_Containers = [Container ''Core'' [] 12 [] [] ''AND''],
                Part_AcademicItems = [], Part_Order = 1, Part_Connector = ''OR''\<rparr>)
           (firstChild [Container ''Core'' [] 12 [] [] ''AND''] [])"
  by code_simp

text \<open>
  C5, amended. In a curriculum returned without an error, the connector of every part is
  \<open>OR\<close> when its first child (the first sub-container, or the first academic item when
  there is no sub-container) declares credit points equal to the credit points parsed from
  the part's entry, and \<open>AND\<close> otherwise. Every container reachable in it follows its
  entry of the document: without sub-containers its connector follows the same rule on
  its first academic item; with sub-containers its connector is \<open>OR\<close> when its first
  sub-container or its first academic item declares credit points equal to its own, and
  otherwise the \<open>parent_connector\<close> value of the last of its nested entries, or \<open>AND\<close>
  when that value is empty.
\<close>

theorem C5_connector_inference:
  "ParseCurriculum rawJSON = Return (curriculum, None) \<longrightarrow>
      list_all2
        (\<lambda>partMap part.
           Part_Connector part =
             spec_connector (StringToInt (getString partMap ''credit_points''))
               (firstChild (Part_Containers part) (Part_AcademicItems part))
           \<and> list_all2 connector_follows (nestedEntries partMap) (Part_Containers part))
        (partEntries rawJSON) (Curriculum_Parts curriculum)"
proof
  assume "ParseCurriculum rawJSON = Return (curriculum, None)"
  from ParseCurriculum_parts [OF this]
  show "list_all2
        (\<lambda>partMap part.
           Part_Connector part =
             spec_connector (StringToInt (getString partMap ''credit_points''))
               (firstChild (Part_Containers part) (Part_AcademicItems part))
           \<and> list_all2 connector_follows (nestedEntries partMap) (Part_Containers part))
        (partEntries rawJSON) (Curriculum_Parts curriculum)"
    by (rule list_all2_mono) (rule ParseCurriculum_part_follows)
qed

text \<open>
  Scenario 5 of the specification: a part requiring 12 credit points whose first container
  requires 12 gets \<open>OR\<close>, a part requiring 24 whose first container requires 12 keeps
  \<open>AND\<close>; and a part whose container \<open>Core\<close> inherits \<open>OR\<close> from its nested entry.
\<close>

theorem C5_connector_inference_witness:
  "ParseCurriculum
     (curriculumDocument ''48''
        [partEntry ''Part A'' ''12'' [containerEntry ''Core'' ''12'' ''AND'' [] []] [],
         partEntry ''Part B'' ''24'' [containerEntry ''Core'' ''12'' ''AND'' [] []] [],
         partEntry ''Part C'' ''24''
           [containerEntry ''Core'' ''12'' ''AND'' [containerEntry ''Inner'' ''6'' ''OR'' [] []] []]
           []])
   = Return
       (\<lparr>Curriculum_TotalCreditPoints = 48,
         Curriculum_Parts =
           [\<lparr>Part_Title = ''Part A'', Part_Description = [], Part_CreditPointsRequired = 12,
              Part_Containers = [Container ''Core'' [] 12 [] [] ''AND''],
              Part_AcademicItems = [], Part_Order = 1, Part_Connector = ''OR''\<rparr>,
            \<lparr>Part_Title = ''Part B'', Part_Description = [], Part_CreditPointsRequired = 24,
              Part_Containers = [Container ''Core'' [] 12 [] [] ''AND''],
              Part_AcademicItems = [], Part_Order = 1, Part_Connector = ''AND''\<rparr>,
            \<lparr>Part_Title = ''Part C'', Part_Description = [], Part_CreditPointsRequired = 24,
              Part_Containers =
                [Container ''Core'' [] 12 [Container ''Inner'' [] 6 [] [] ''AND''] [] ''OR''],
              Part_AcademicItems = [], Part_Order = 1, Part_Connector = ''AND''\<rparr>]\<rparr>,
        None)
   \<and> list_all2
        (\<lambda>partMap part.
           Part_Connector part =
             spec_connector (StringToInt (getString partMap ''credit_points''))
               (firstChild (Part_Containers part) (Part_AcademicItems part))
           \<and> list_all2 connector_follows (nestedEntries partMap) (Part_Containers part))
        (partEntries
           (curriculumDocument ''48''
        [partEntry ''Part A'' ''12'' [containerEntry ''Core'' ''12'' ''AND'' [] []] [],
         partEntry ''Part B'' ''24'' [containerEntry ''Core'' ''12'' ''AND'' [] []] [],
         partEntry ''Part C'' ''24''
           [containerEntry ''Core'' ''12'' ''AND'' [containerEntry ''Inner'' ''6'' ''OR'' [] []] []]
           []]))
        [\<lparr>Part_Title = ''Part A'', Part_Description = [], Part_CreditPointsRequired = 12,
              Part_Containers = [Container ''Core'' [] 12 [] [] ''AND''],
              Part_AcademicItems = [], Part_Order = 1, Part_Connector = ''OR''\<rparr>,
            \<lparr>Part_Title = ''Part B'', Part_Description = [], Part_CreditPointsRequired = 24,
              Part_Containers = [Container ''Core'' [] 12 [] [] ''AND''],
              Part_AcademicItems = [], Part_Order = 1, Part_Connector = ''AND''\<rparr>,
            \<lparr>Part_Title = ''Part C'', Part_Description = [], Part_CreditPointsRequired = 24,
              Part_Containers =
                [Container ''Core'' [] 12 [Container ''Inner'' [] 6 [] [] ''AND''] [] ''OR''],
              Part_AcademicItems = [], Part_Order = 1, Part_Connector = ''AND''\<rparr>]
   \<and> inheritedConnector
         (containerFields ''Core'' ''12'' ''AND'' [containerEntry ''Inner'' ''6'' ''OR'' [] []] [])
       = ''OR''"
proof -
  have e: "ParseCurriculum
     (curriculumDocument ''48''
        [partEntry ''Part A'' ''12'' [containerEntry ''Core'' ''12'' ''AND'' [] []] [],
         partEntry ''Part B'' ''24'' [containerEntry ''Core'' ''12'' ''AND'' [] []] [],
         partEntry ''Part C'' ''24''
           [containerEntry ''Core'' ''12'' ''AND'' [containerEntry ''Inner'' ''6'' ''OR'' [] []] []]
           []])
   = Return
       (\<lparr>Curriculum_TotalCreditPoints = 48,
         Curriculum_Parts =
           [\<lparr>Part_Title = ''Part A'', Part_Description = [], Part_CreditPointsRequired = 12,
              Part_Containers = [Container ''Core'' [] 12 [] [] ''AND''],
              Part_AcademicItems = [], Part_Order = 1, Part_Connector = ''OR''\<rparr>,
            \<lparr>Part_Title = ''Part B'', Part_Description = [], Part_CreditPointsRequired = 24,
              Part_Containers = [Container ''Core'' [] 12 [] [] ''AND''],
              Part_AcademicItems = [], Part_Order = 1, Part_Connector = ''AND''\<rparr>,
            \<lparr>Part_Title = ''Part C'', Part_Description = [], Part_CreditPointsRequired = 24,
              Part_Containers =
                [Container ''Core'' [] 12 [Container ''Inner'' [] 6 [] [] ''AND''] [] ''OR''],
              Part_AcademicItems = [], Part_Order = 1, Part_Connector = ''AND''\<rparr>]\<rparr>,
        None)"
    by code_simp
  have i: "inheritedConnector
         (containerFields ''Core'' ''12'' ''AND'' [containerEntry ''Inner'' ''6'' ''OR'' [] []] [])
       = ''OR''"
    by code_simp
  from e i
    C5_connector_inference
      [of "curriculumDocument ''48''
        [partEntry ''Part A'' ''12'' [containerEntry ''Core'' ''12'' ''AND'' [] []] [],
         partEntry ''Part B'' ''24'' [containerEntry ''Core'' ''12'' ''AND'' [] []] [],
         partEntry ''Part C'' ''24''
           [containerEntry ''Core'' ''12'' ''AND'' [containerEntry ''Inner'' ''6'' ''OR'' [] []] []]
           []]"
          "\<lparr>Curriculum_TotalCreditPoints = 48,
         Curriculum_Parts =
           [\<lparr>Part_Title = ''Part A'', Part_Description = [], Part_CreditPointsRequired = 12,
              Part_Containers = [Container ''Core'' [] 12 [] [] ''AND''],
              Part_AcademicItems = [], Part_Order = 1, Part_Connector = ''OR''\<rparr>,
            \<lparr>Part_Title = ''Part B'', Part_Description = [], Part_CreditPointsRequired = 24,
              Part_Containers = [Container ''Core'' [] 12 [] [] ''AND''],
              Part_AcademicItems = [], Part_Order = 1, Part_Connector = ''AND''\<rparr>,
            \<lparr>Part_Title = ''Part C'', Part_Description = [], Part_CreditPointsRequired = 24,
              Part_Containers =
                [Container ''Core'' [] 12 [Container ''Inner'' [] 6 [] [] ''AND''] [] ''OR''],
              Part_AcademicItems = [], Part_Order = 1, Part_Connector = ''AND''\<rparr>]\<rparr>"]
  show ?thesis
    by simp
qed

text \<open>
  C6, as stated, fails: a total of \<open>abc\<close> credit points and a part requiring \<open>xyz\<close>
  are both read as 0, and the curriculum is built without an error.
\<close>

theorem C6_non_numeric_credit_points_counterexample:
  "ParseCurriculum
     (curriculumDocument ''abc''
        [partEntry ''Part A'' ''xyz'' [] [relationshipEntry ''FIT1045'' ''6'']])
   = Return
       (\<lparr>Curriculum_TotalCreditPoints = 0,
         Curriculum_Parts =
           [\<lparr>Part_Title = ''Part A'', Part_Description = [], Part_CreditPointsRequired = 0,
              Part_Containers = [],
              Part_AcademicItems =
                [\<lparr>AcademicItem_Type = ''unit'', AcademicItem_Title = ''FIT1045'',
                   AcademicItem_Code = ''FIT1045'', AcademicItem_Description = [],
                   AcademicItem_CreditPoints = 6, AcademicItem_URL = []\<rparr>],
              Part_Order = 1, Part_Connector = ''AND''\<rparr>]\<rparr>,
        None)"
  by code_simp

text \<open>
  C6, amended. \<open>ParseCurriculum\<close> returns an error, with an empty curriculum, when the
  total-credit-points field is missing or is not a string. When that field is a string and
  the parts container is an array, \<open>ParseCurriculum\<close> returns no error, whatever the
  strings hold: a credit-points string without a digit is read as 0, and so is a node's
  required-credit-points field that is missing or is not a string.
\<close>

theorem C6_total_credit_points_error:
  "((\<forall>s. map_of (curriculumStructure rawJSON) ''credit_points'' \<noteq> Some (JString s)) \<longrightarrow>
      ParseCurriculum rawJSON =
        Return (\<lparr>Curriculum_TotalCreditPoints = 0, Curriculum_Parts = []\<rparr>,
                Some ''total credit points not found or not a string''))
   \<and> (map_of (curriculumStructure rawJSON) ''credit_points'' = Some (JString totalCreditsStr)
        \<and> map_of (curriculumStructure rawJSON) ''container'' = Some (JArray partsData) \<longrightarrow>
      ParseCurriculum rawJSON = Panic
      \<or> (\<exists>parts. ParseCurriculum rawJSON =
            Return (\<lparr>Curriculum_TotalCreditPoints = StringToInt totalCreditsStr,
                     Curriculum_Parts = parts\<rparr>, None)))
   \<and> ((\<forall>ch \<in> set s. \<not> is_digit ch) \<longrightarrow> StringToInt s = 0)
   \<and> ((\<forall>s. map_of nodeMap ''credit_points'' \<noteq> Some (JString s)) \<longrightarrow>
      StringToInt (getString nodeMap ''credit_points'') = 0)"
proof (intro conjI impI)
  assume "\<forall>s. map_of (curriculumStructure rawJSON) ''credit_points'' \<noteq> Some (JString s)"
  then show "ParseCurriculum rawJSON =
        Return (\<lparr>Curriculum_TotalCreditPoints = 0, Curriculum_Parts = []\<rparr>,
                Some ''total credit points not found or not a string'')"
    by (auto simp: ParseCurriculum_def curriculumStructure_def Let_def
        split: option.splits json.splits)
next
  assume "map_of (curriculumStructure rawJSON) ''credit_points'' = Some (JString totalCreditsStr)
        \<and> map_of (curriculumStructure rawJSON) ''container'' = Some (JArray partsData)"
  then show "ParseCurriculum rawJSON = Panic
      \<or> (\<exists>parts. ParseCurriculum rawJSON =
            Return (\<lparr>Curriculum_TotalCreditPoints = StringToInt totalCreditsStr,
                     Curriculum_Parts = parts\<rparr>, None))"
    by (auto simp: ParseCurriculum_def curriculumStructure_def Let_def split: outcome.splits)
next
  assume "\<forall>ch \<in> set s. \<not> is_digit ch"
  then show "StringToInt s = 0" by (rule StringToInt_no_digit)
next
  assume "\<forall>s. map_of nodeMap ''credit_points'' \<noteq> Some (JString s)"
  then have "getString nodeMap ''credit_points'' = []"
    by (auto simp: getString_def split: option.splits json.splits)
  then show "StringToInt (getString nodeMap ''credit_points'') = 0"
    by (simp add: StringToInt_def)
qed

theorem C6_total_credit_points_error_witness:
  "map_of (curriculumStructure numericTotalDocument) ''credit_points'' = Some (JNumber 48)
   \<and> ParseCurriculum numericTotalDocument =
       Return (\<lparr>Curriculum_TotalCreditPoints = 0, Curriculum_Parts = []\<rparr>,
               Some ''total credit points not found or not a string'')
   \<and> map_of (curriculumStructure (curriculumDocument ''abc'' [])) ''credit_points''
       = Some (JString ''abc'')
   \<and> map_of (curriculumStructure (curriculumDocument ''abc'' [])) ''container''
       = Some (JArray [])
   \<and> ParseCurriculum (curriculumDocument ''abc'' []) =
       Return (\<lparr>Curriculum_TotalCreditPoints = 0, Curriculum_Parts = []\<rparr>, None)
   \<and> list_all (\<lambda>ch. \<not> is_digit ch) ''abc''
   \<and> StringToInt ''abc'' = 0
   \<and> StringToInt (getString [(''credit_points'', JNumber 6)] ''credit_points'') = 0"
proof -
  have m1: "map_of (curriculumStructure numericTotalDocument) ''credit_points''
              = Some (JNumber 48)"
    by code_simp
  have m2: "map_of (curriculumStructure (curriculumDocument ''abc'' [])) ''credit_points''
              = Some (JString ''abc'')"
    by code_simp
  have m3: "map_of (curriculumStructure (curriculumDocument ''abc'' [])) ''container''
              = Some (JArray [])"
    by code_simp
  have m4: "ParseCurriculum (curriculumDocument ''abc'' []) \<noteq> Panic"
    by code_simp
  have m5: "list_all (\<lambda>ch. \<not> is_digit ch) ''abc''"
    by code_simp
  have m6: "\<forall>s. map_of [(''credit_points'', JNumber 6)] ''credit_points'' \<noteq> Some (JString s)"
    by simp
  note t = C6_total_credit_points_error
    [of numericTotalDocument _ _ "''abc''" "[(''credit_points'', JNumber 6)]"]
  note u = C6_total_credit_points_error [of "curriculumDocument ''abc'' []" "''abc''" "[]"]
  from t m1 have r1: "ParseCurriculum numericTotalDocument =
       Return (\<lparr>Curriculum_TotalCreditPoints = 0, Curriculum_Parts = []\<rparr>,
               Some ''total credit points not found or not a string'')"
    by simp
  from t m5 have r2: "StringToInt ''abc'' = 0"
    by (simp add: list_all_iff)
  from t m6 have r3: "StringToInt (getString [(''credit_points'', JNumber 6)] ''credit_points'') = 0"
    by blast
  from u m2 m3 m4 r2 obtain parts where
    "ParseCurriculum (curriculumDocument ''abc'' []) =
       Return (\<lparr>Curriculum_TotalCreditPoints = 0, Curriculum_Parts = parts\<rparr>, None)"
    by auto
  moreover have "ParseCurriculum (curriculumDocument ''abc'' []) =
       Return (\<lparr>Curriculum_TotalCreditPoints = 0, Curriculum_Parts = []\<rparr>, None)"
    by code_simp
  ultimately show ?thesis
    using m1 m2 m3 m5 r1 r2 r3 by simp
qed

text \<open>
  C7. The claim fails on the code: a container entry that carries both a non-empty
  \<open>relationship\<close> array and a non-empty \<open>container\<close> array comes out with both
  \<open>AcademicItems\<close> and \<open>Containers\<close> populated. The loop of \<open>ParseCurriculum\<close> reads
  the items of a part only when the part has no container; the loop of
  \<open>parseContainers\<close> has no such test.
\<close>

theorem C7_containers_and_items_both_populated:
  "ParseCurriculum
     (curriculumDocument ''48''
        [partEntry ''Part A'' ''24''
           [containerEntry ''Core'' ''12'' ''AND''
              [containerEntry ''Inner'' ''6'' ''AND'' [] []]
              [relationshipEntry ''FIT1045'' ''6'']]
           []])
   = Return
       (\<lparr>Curriculum_TotalCreditPoints = 48,
         Curriculum_Parts =
           [\<lparr>Part_Title = ''Part A'', Part_Description = [], Part_CreditPointsRequired = 24,
              Part_Containers =
                [Container ''Core'' [] 12
                   [Container ''Inner'' [] 6 [] [] ''AND'']
                   [\<lparr>AcademicItem_Type = ''unit'', AcademicItem_Title = ''FIT1045'',
                      AcademicItem_Code = ''FIT1045'', AcademicItem_Description = [],
                      AcademicItem_CreditPoints = 6, AcademicItem_URL = []\<rparr>]
                   ''AND''],
              Part_AcademicItems = [], Part_Order = 1, Part_Connector = ''AND''\<rparr>]\<rparr>,
        None)
   \<and> Container_Containers
         (Container ''Core'' [] 12
            [Container ''Inner'' [] 6 [] [] ''AND'']
            [\<lparr>AcademicItem_Type = ''unit'', AcademicItem_Title = ''FIT1045'',
               AcademicItem_Code = ''FIT1045'', AcademicItem_Description = [],
               AcademicItem_CreditPoints = 6, AcademicItem_URL = []\<rparr>]
            ''AND'') \<noteq> []
   \<and> Container_AcademicItems
         (Container ''Core'' [] 12
            [Container ''Inner'' [] 6 [] [] ''AND'']
            [\<lparr>AcademicItem_Type = ''unit'', AcademicItem_Title = ''FIT1045'',
               AcademicItem_Code = ''FIT1045'', AcademicItem_Description = [],
               AcademicItem_CreditPoints = 6, AcademicItem_URL = []\<rparr>]
            ''AND'') \<noteq> []"
  by code_simp

text \<open>
  C9. When \<open>ParseCurriculum\<close> returns a curriculum without an error, its parts are the
  object entries of the parts array in order, and the required credit points of each part
  are 0 when the credit points parsed from its entry equal the total credit points of the
  curriculum, and the parsed credit points otherwise.
\<close>

theorem C9_credit_normalization:
  assumes "ParseCurriculum rawJSON = Return (curriculum, None)"
  shows "list_all2
           (\<lambda>partMap part.
              Part_CreditPointsRequired part =
                (if StringToInt (getString partMap ''credit_points'')
                      = Curriculum_TotalCreditPoints curriculum
                 then 0 else StringToInt (getString partMap ''credit_points'')))
           (partEntries rawJSON) (Curriculum_Parts curriculum)"
  using ParseCurriculum_parts [OF assms]
  by (rule list_all2_mono) (rule ParseCurriculum_part_CreditPointsRequired)

text \<open>
  Scenario 6 of the specification: of two parts of a curriculum of 48 credit points, the
  one requiring 48 comes out with 0, the one requiring 24 keeps them.
\<close>

theorem C9_credit_normalization_witness:
  "ParseCurriculum
     (curriculumDocument ''48 credit points''
        [partEntry ''Part A'' ''48'' [] [], partEntry ''Part B'' ''24'' [] []])
   = Return
       (\<lparr>Curriculum_TotalCreditPoints = 48,
         Curriculum_Parts =
           [\<lparr>Part_Title = ''Part A'', Part_Description = [], Part_CreditPointsRequired = 0,
              Part_Containers = [], Part_AcademicItems = [], Part_Order = 1,
              Part_Connector = ''AND''\<rparr>,
            \<lparr>Part_Title = ''Part B'', Part_Description = [], Part_CreditPointsRequired = 24,
              Part_Containers = [], Part_AcademicItems = [], Part_Order = 1,
              Part_Connector = ''AND''\<rparr>]\<rparr>,
        None)
   \<and> map (\<lambda>partMap. StringToInt (getString partMap ''credit_points''))
       (partEntries
          (curriculumDocument ''48 credit points''
             [partEntry ''Part A'' ''48'' [] [], partEntry ''Part B'' ''24'' [] []]))
     = [48, 24]
   \<and> list_all2
       (\<lambda>partMap part.
          Part_CreditPointsRequired part =
            (if StringToInt (getString partMap ''credit_points'') = 48
             then 0 else StringToInt (getString partMap ''credit_points'')))
       (partEntries
          (curriculumDocument ''48 credit points''
             [partEntry ''Part A'' ''48'' [] [], partEntry ''Part B'' ''24'' [] []]))
       [\<lparr>Part_Title = ''Part A'', Part_Description = [], Part_CreditPointsRequired = 0,
          Part_Containers = [], Part_AcademicItems = [], Part_Order = 1,
          Part_Connector = ''AND''\<rparr>,
        \<lparr>Part_Title = ''Part B'', Part_Description = [], Part_CreditPointsRequired = 24,
          Part_Containers = [], Part_AcademicItems = [], Part_Order = 1,
          Part_Connector = ''AND''\<rparr>]"
proof -
  let ?doc = "curriculumDocument ''48 credit points''
        [partEntry ''Part A'' ''48'' [] [], partEntry ''Part B'' ''24'' [] []]"
  have e: "ParseCurriculum ?doc = Return
       (\<lparr>Curriculum_TotalCreditPoints = 48,
         Curriculum_Parts =
           [\<lparr>Part_Title = ''Part A'', Part_Description = [], Part_CreditPointsRequired = 0,
              Part_Containers = [], Part_AcademicItems = [], Part_Order = 1,
              Part_Connector = ''AND''\<rparr>,
            \<lparr>Part_Title = ''Part B'', Part_Description = [], Part_CreditPointsRequired = 24,
              Part_Containers = [], Part_AcademicItems = [], Part_Order = 1,
              Part_Connector = ''AND''\<rparr>]\<rparr>,
        None)"
    by code_simp
  have c: "map (\<lambda>partMap. StringToInt (getString partMap ''credit_points'')) (partEntries ?doc)
             = [48, 24]"
    by code_simp
  from C9_credit_normalization [OF e] e c show ?thesis
    by simp
qed

end
